theory Spec2Isabelle
  imports Main "HOL-Library.Sublist"
begin

section \<open>Indicator synchronisation of the WorldData desktop shell\<close>

text \<open>
  A shallow embedding of the indicator management part of the main process
  (\<^verbatim>\<open>getIndicatorsDir\<close>, \<^verbatim>\<open>readInstalledIndicatorVersion\<close>, the keytar token
  handlers, \<^verbatim>\<open>performDownloadIndicators\<close> and \<^verbatim>\<open>checkAndUpdateIndicators\<close>).

  A JavaScript string is modelled as a \<^typ>\<open>string\<close> whose characters are the code
  units \<open>0\<close> to \<open>255\<close> (the Latin-1 part of UTF-16); strings with other code units are
  outside the model.
\<close>

subsection \<open>Strings\<close>

text \<open>\<^verbatim>\<open>String.prototype.toLowerCase\<close> on code units below 256: \<open>A\<close>-\<open>Z\<close> and the
  accented capitals \<open>0xC0\<close>-\<open>0xDE\<close> (but not the multiplication sign \<open>0xD7\<close>) move up
  by 32, everything else stays.\<close>

definition toLowerCase_char :: "char \<Rightarrow> char" where
  "toLowerCase_char c =
     (let n = (of_char c :: nat)
      in if (65 \<le> n \<and> n \<le> 90) \<or> (192 \<le> n \<and> n \<le> 222 \<and> n \<noteq> 215)
         then char_of (n + 32) else c)"

definition toLowerCase :: "string \<Rightarrow> string" where
  "toLowerCase p = map toLowerCase_char p"

text \<open>The white space and line terminators that \<^verbatim>\<open>String.prototype.trim\<close> strips,
  among the code units below 256: TAB, LF, VT, FF, CR, space and the no-break space.\<close>

definition isWhiteSpace :: "char \<Rightarrow> bool" where
  "isWhiteSpace c = ((of_char c :: nat) \<in> {9, 10, 11, 12, 13, 32, 160})"

definition trim :: "string \<Rightarrow> string" where
  "trim t = rev (dropWhile isWhiteSpace (rev (dropWhile isWhiteSpace t)))"

definition startsWith :: "string \<Rightarrow> string \<Rightarrow> bool" where
  "startsWith p x = prefix x p"

definition endsWith :: "string \<Rightarrow> string \<Rightarrow> bool" where
  "endsWith p x = suffix x p"

text \<open>\<^verbatim>\<open>v || d\<close> for a value that is a string or missing: the empty string and
  \<^verbatim>\<open>undefined\<close>/\<^verbatim>\<open>null\<close> are falsy.\<close>

definition truthy :: "string option \<Rightarrow> bool" where
  "truthy v = (case v of None \<Rightarrow> False | Some t \<Rightarrow> t \<noteq> [])"

definition or_else :: "string option \<Rightarrow> string \<Rightarrow> string" where
  "or_else v d = (case v of None \<Rightarrow> d | Some t \<Rightarrow> if t = [] then d else t)"

text \<open>\<^verbatim>\<open>v || null\<close>.\<close>

definition or_null :: "string option \<Rightarrow> string option" where
  "or_null v = (if truthy v then v else None)"

subsection \<open>Remote tree entries and the candidate filter\<close>

text \<open>An entry of the \<^verbatim>\<open>tree\<close> array of the listing response. Either field may be
  missing from the JSON object.\<close>

record tree_entry =
  path :: "string option"
  type :: "string option"

text \<open>\<^verbatim>\<open>String(i.path || '')\<close>.\<close>

definition entry_path :: "tree_entry \<Rightarrow> string" where
  "entry_path i = or_else (path i) []"

text \<open>The callback of \<^verbatim>\<open>treeResp.tree.filter\<close> (lines 426-429).\<close>

definition is_json_file :: "tree_entry \<Rightarrow> bool" where
  "is_json_file i =
     (let p = entry_path i
      in type i = Some ''blob'' \<and> startsWith p ''indicators/''
         \<and> endsWith (toLowerCase p) ''.json'')"

definition jsonFiles :: "tree_entry list \<Rightarrow> tree_entry list" where
  "jsonFiles entries = filter is_json_file entries"

text \<open>The candidate condition in the words of the specification: a blob whose path
  starts with the fixed prefix and whose lowercased path ends with the fixed
  extension.\<close>

definition spec_candidate :: "tree_entry \<Rightarrow> bool" where
  "spec_candidate e =
     (type e = Some ''blob''
      \<and> (\<exists>rest. path e = Some (''indicators/'' @ rest))
      \<and> (\<exists>p stem. path e = Some p \<and> toLowerCase p = stem @ ''.json''))"

subsection \<open>Paths\<close>

text \<open>POSIX paths, as Node's \<^verbatim>\<open>path.posix\<close> treats them. A path is cut at its separators
  and put together again.\<close>

fun split_slash :: "string \<Rightarrow> string list" where
  "split_slash [] = [[]]"
| "split_slash (c # cs) =
     (if c = CHR ''/'' then [] # split_slash cs
      else (case split_slash cs of s # ss \<Rightarrow> (c # s) # ss | [] \<Rightarrow> [[c]]))"

fun join_slash :: "string list \<Rightarrow> string" where
  "join_slash [] = []"
| "join_slash [s] = s"
| "join_slash (s # t # ss) = s @ CHR ''/'' # join_slash (t # ss)"

text \<open>\<^verbatim>\<open>normalizeString\<close>: empty and \<open>.\<close> segments are dropped; \<open>..\<close> removes the segment
  before it, unless there is none or it is itself \<open>..\<close>, in which case it is kept when
  the path is relative and dropped when it is absolute.\<close>

definition normalize_step :: "bool \<Rightarrow> string list \<Rightarrow> string \<Rightarrow> string list" where
  "normalize_step allowAboveRoot res seg =
     (if seg = [] \<or> seg = ''.'' then res
      else if seg = ''..'' then
        (if res \<noteq> [] \<and> last res \<noteq> ''..'' then butlast res
         else if allowAboveRoot then res @ [''..'']
         else res)
      else res @ [seg])"

definition normalizeString :: "string \<Rightarrow> bool \<Rightarrow> string" where
  "normalizeString p allowAboveRoot =
     join_slash (foldl (normalize_step allowAboveRoot) [] (split_slash p))"

text \<open>\<^verbatim>\<open>path.normalize\<close>: a leading and a trailing separator are kept.\<close>

definition path_normalize :: "string \<Rightarrow> string" where
  "path_normalize p =
     (if p = [] then ''.''
      else
        (let isAbsolute = (hd p = CHR ''/'');
             trailingSeparator = (last p = CHR ''/'');
             q = normalizeString p (\<not> isAbsolute)
         in if q = [] then (if isAbsolute then ''/'' else if trailingSeparator then ''./'' else ''.'')
            else (if isAbsolute then ''/'' else []) @ q @ (if trailingSeparator then ''/'' else [])))"

text \<open>\<^verbatim>\<open>path.join\<close> of two arguments: the non-empty ones are joined with a separator and
  the result is normalised.\<close>

definition path_join :: "string \<Rightarrow> string \<Rightarrow> string" where
  "path_join a b =
     (if a = [] \<and> b = [] then ''.''
      else if a = [] then path_normalize b
      else if b = [] then path_normalize a
      else path_normalize (a @ CHR ''/'' # b))"

text \<open>\<^verbatim>\<open>path.dirname\<close>: trailing separators are skipped, then the last segment, and the
  path is cut at the separator before it (found from the end, down to index 1).\<close>

definition dirname :: "string \<Rightarrow> string" where
  "dirname p =
     (if p = [] then ''.''
      else
        (let hasRoot = (hd p = CHR ''/'');
             r = dropWhile (\<lambda>c. c \<noteq> CHR ''/'') (dropWhile (\<lambda>c. c = CHR ''/'') (rev (tl p)));
             end = length r
         in if r = [] then (if hasRoot then ''/'' else ''.'')
            else if hasRoot \<and> end = 1 then ''//''
            else take end p))"

text \<open>The proper ancestors that a recursive \<^verbatim>\<open>mkdir\<close> creates along the way.\<close>

definition parents :: "string \<Rightarrow> string list" where
  "parents d = [take k d. k \<leftarrow> [1..<length d], d ! k = CHR ''/'']"

text \<open>\<^verbatim>\<open>item.path.replace(/\\/g, '/')\<close>.\<close>

definition replace_backslashes :: "string \<Rightarrow> string" where
  "replace_backslashes p = map (\<lambda>c. if c = CHR 0x5C then CHR ''/'' else c) p"

subsection \<open>Results and renderer events\<close>

text \<open>The object a download pass returns: \<^verbatim>\<open>{success: true, downloaded, errors, dir}\<close>
  or \<^verbatim>\<open>{success: false, error}\<close>. An entry of \<open>errors\<close> is \<^verbatim>\<open>{path, error}\<close>.\<close>

datatype sync_result =
  Success (downloaded: nat) (errors: "(string \<times> string) list") (dir: string)
| Failure (error: string)

definition success :: "sync_result \<Rightarrow> bool" where
  "success r = (case r of Success _ _ _ \<Rightarrow> True | Failure _ \<Rightarrow> False)"

text \<open>The messages sent to the renderer with \<^verbatim>\<open>mainWindow.webContents.send\<close>:
  \<^verbatim>\<open>indicators-download-start {owner, repo, branch, total}\<close>,
  \<^verbatim>\<open>indicators-download-progress {current, total, path}\<close>,
  \<^verbatim>\<open>indicators-download-complete result\<close> and
  \<^verbatim>\<open>indicators-updated {success, version, details}\<close>.\<close>

datatype event =
  DownloadStart string string string nat
| DownloadProgress (current: nat) (total: nat) (item_path: string)
| DownloadComplete sync_result
| Updated bool string sync_result

subsection \<open>The host and the mutable world\<close>

text \<open>What \<^verbatim>\<open>fetchJson\<close> resolves to is an object of which only three fields are
  read; \<open>None\<close> for the object is \<^verbatim>\<open>null\<close> (or any value without those fields). A
  \<open>tree\<close> that is present is an array (arrays are truthy, also when empty).\<close>

record json_object =
  tree :: "tree_entry list option"
  content :: "string option"
  encoding :: "string option"

text \<open>A request is rejected (network error, timeout, a body that is not JSON) with a
  message, or resolves to the parsed body.\<close>

datatype response = Rejected string | Resolved "json_object option"

text \<open>The keytar module, when it could be loaded: each of its three operations may
  throw (\<open>Some\<close> message).\<close>

record keytar_module =
  setPassword_error :: "string option"
  getPassword_error :: "string option"
  deletePassword_error :: "string option"

text \<open>
  The conditions under which a call runs, none of which the code changes: the build
  kind, the two base paths, what the file system refuses (\<open>Some\<close> message: the call
  throws), the keytar module (\<open>None\<close>: \<^verbatim>\<open>require('keytar')\<close> failed), the answers
  of the network to a request with a given \<open>Authorization\<close> header and URL,
  \<^verbatim>\<open>Buffer.from(content, encoding)\<close> (\<open>Inl\<close>: it throws), and whether a window with
  live \<open>webContents\<close> is there to receive events (a \<^verbatim>\<open>send\<close> that throws is caught
  and logged, which leaves the same trace as no window).
\<close>

record host =
  isDev :: bool
  execPath :: string
  userData :: string
  mkdir_error :: "string \<Rightarrow> string option"
  write_error :: "string \<Rightarrow> string option"
  unlink_error :: "string \<Rightarrow> string option"
  read_error :: "string \<Rightarrow> string option"
  keytar :: "keytar_module option"
  https_get_json :: "string option \<Rightarrow> string \<Rightarrow> response"
  https_get_text :: "string \<Rightarrow> string + string"
  Buffer_from :: "string \<Rightarrow> string \<Rightarrow> string + string"
  mainWindow :: bool

text \<open>What the code changes: files and directories on disk, the token kept by keytar
  under the fixed service and account, the requests made so far, and the events sent
  to the renderer so far.\<close>

record world =
  files :: "string \<rightharpoonup> string"
  dirs :: "string set"
  password :: "string option"
  requests :: "string list"
  events :: "event list"

definition send :: "host \<Rightarrow> event \<Rightarrow> world \<Rightarrow> world" where
  "send h e w = (if mainWindow h then w\<lparr>events := events w @ [e]\<rparr> else w)"

subsection \<open>File system calls\<close>

text \<open>Each call returns \<open>Inl\<close> of the message when it throws.\<close>

definition mkdirSync :: "host \<Rightarrow> string \<Rightarrow> world \<Rightarrow> string + world" where
  "mkdirSync h d w =
     (case mkdir_error h d of
        Some m \<Rightarrow> Inl m
      | None \<Rightarrow> Inr (w\<lparr>dirs := dirs w \<union> set (parents d) \<union> {d}\<rparr>))"

definition writeFileSync :: "host \<Rightarrow> string \<Rightarrow> string \<Rightarrow> world \<Rightarrow> string + world" where
  "writeFileSync h p data w =
     (case write_error h p of
        Some m \<Rightarrow> Inl m
      | None \<Rightarrow> Inr (w\<lparr>files := (files w)(p \<mapsto> data)\<rparr>))"

definition unlinkSync :: "host \<Rightarrow> string \<Rightarrow> world \<Rightarrow> string + world" where
  "unlinkSync h p w =
     (case unlink_error h p of
        Some m \<Rightarrow> Inl m
      | None \<Rightarrow>
          if files w p = None then Inl ''ENOENT''
          else Inr (w\<lparr>files := (files w)(p := None)\<rparr>))"

definition existsSync :: "string \<Rightarrow> world \<Rightarrow> bool" where
  "existsSync p w = (files w p \<noteq> None \<or> p \<in> dirs w)"

definition readFileSync :: "host \<Rightarrow> string \<Rightarrow> world \<Rightarrow> string + string" where
  "readFileSync h p w =
     (case read_error h p of
        Some m \<Rightarrow> Inl m
      | None \<Rightarrow> (case files w p of None \<Rightarrow> Inl ''ENOENT'' | Some c \<Rightarrow> Inr c))"

text \<open>\<^verbatim>\<open>ensureDir\<close> (lines 264-266): a failure is logged and swallowed.\<close>

definition ensureDir :: "host \<Rightarrow> string \<Rightarrow> world \<Rightarrow> world" where
  "ensureDir h d w = (case mkdirSync h d w of Inl m \<Rightarrow> w | Inr w' \<Rightarrow> w')"

subsection \<open>The indicators directory and the version marker\<close>

text \<open>The fallback at the end of \<^verbatim>\<open>getIndicatorsDir\<close> (lines 298-301).\<close>

definition userDataIndicatorsDir :: "host \<Rightarrow> world \<Rightarrow> string \<times> world" where
  "userDataIndicatorsDir h w =
     (let ud = path_join (userData h) ''indicators''
      in (ud, case mkdirSync h ud w of Inl m \<Rightarrow> w | Inr w' \<Rightarrow> w'))"

text \<open>\<^verbatim>\<open>getIndicatorsDir\<close> (lines 274-302). Nothing is remembered between calls.\<close>

definition getIndicatorsDir :: "host \<Rightarrow> world \<Rightarrow> string \<times> world" where
  "getIndicatorsDir h w =
     (if \<not> isDev h then
        (let execDir = dirname (execPath h)
         in if execDir \<noteq> [] then
              (let installDirCandidate = path_join execDir ''indicators''
               in case mkdirSync h installDirCandidate w of
                    Inl m \<Rightarrow> userDataIndicatorsDir h w
                  | Inr w1 \<Rightarrow>
                      (let testFile = path_join installDirCandidate ''.write_test''
                       in case writeFileSync h testFile ''ok'' w1 of
                            Inl m \<Rightarrow> userDataIndicatorsDir h w1
                          | Inr w2 \<Rightarrow>
                              (case unlinkSync h testFile w2 of
                                 Inl m \<Rightarrow> userDataIndicatorsDir h w2
                               | Inr w3 \<Rightarrow> (installDirCandidate, w3))))
            else userDataIndicatorsDir h w)
      else userDataIndicatorsDir h w)"

text \<open>\<^verbatim>\<open>readInstalledIndicatorVersion\<close> (lines 304-314); \<open>None\<close> is \<^verbatim>\<open>null\<close>.\<close>

definition readInstalledIndicatorVersion :: "host \<Rightarrow> world \<Rightarrow> string option \<times> world" where
  "readInstalledIndicatorVersion h w =
     (let (d, w1) = getIndicatorsDir h w;
          versionFile = path_join d ''indicator_version''
      in if \<not> existsSync versionFile w1 then (None, w1)
         else case readFileSync h versionFile w1 of
                Inl m \<Rightarrow> (None, w1)
              | Inr txt \<Rightarrow> (or_null (Some (trim txt)), w1))"

subsection \<open>Token storage\<close>

text \<open>The three keytar calls on the fixed service \<open>com.worlddata.indicators\<close> and
  account \<open>indicator\<close>; \<open>Inl\<close> is the message of what they throw.
  \<^verbatim>\<open>deletePassword\<close> answers whether there was an entry to delete.\<close>

definition keytar_setPassword :: "keytar_module \<Rightarrow> string \<Rightarrow> world \<Rightarrow> string + world" where
  "keytar_setPassword k v w =
     (case setPassword_error k of
        Some m \<Rightarrow> Inl m
      | None \<Rightarrow> Inr (w\<lparr>password := Some v\<rparr>))"

definition keytar_getPassword :: "keytar_module \<Rightarrow> world \<Rightarrow> string + string option" where
  "keytar_getPassword k w =
     (case getPassword_error k of Some m \<Rightarrow> Inl m | None \<Rightarrow> Inr (password w))"

definition keytar_deletePassword :: "keytar_module \<Rightarrow> world \<Rightarrow> string + bool \<times> world" where
  "keytar_deletePassword k w =
     (case deletePassword_error k of
        Some m \<Rightarrow> Inl m
      | None \<Rightarrow> Inr (password w \<noteq> None, w\<lparr>password := None\<rparr>))"

text \<open>The handlers \<^verbatim>\<open>store-indicator-token\<close>, \<^verbatim>\<open>get-indicator-token\<close> and
  \<^verbatim>\<open>delete-indicator-token\<close> (lines 351-380).\<close>

definition store_indicator_token :: "host \<Rightarrow> string option \<Rightarrow> world \<Rightarrow> bool \<times> world" where
  "store_indicator_token h tok w =
     (case keytar h of
        None \<Rightarrow> (False, w)
      | Some k \<Rightarrow>
          (case keytar_setPassword k (or_else tok []) w of
             Inl m \<Rightarrow> (False, w)
           | Inr w' \<Rightarrow> (True, w')))"

definition get_indicator_token :: "host \<Rightarrow> world \<Rightarrow> string option \<times> world" where
  "get_indicator_token h w =
     (case keytar h of
        None \<Rightarrow> (None, w)
      | Some k \<Rightarrow>
          (case keytar_getPassword k w of
             Inl m \<Rightarrow> (None, w)
           | Inr v \<Rightarrow> (v, w)))"

definition delete_indicator_token :: "host \<Rightarrow> world \<Rightarrow> bool \<times> world" where
  "delete_indicator_token h w =
     (case keytar h of
        None \<Rightarrow> (False, w)
      | Some k \<Rightarrow>
          (case keytar_deletePassword k w of
             Inl m \<Rightarrow> (False, w)
           | Inr r \<Rightarrow> r))"

subsection \<open>Requests\<close>

definition hexDigit :: "nat \<Rightarrow> char" where
  "hexDigit n = ''0123456789ABCDEF'' ! (n mod 16)"

definition percent :: "nat \<Rightarrow> string" where
  "percent n = [CHR ''%'', hexDigit (n div 16), hexDigit n]"

text \<open>\<^verbatim>\<open>encodeURIComponent\<close>: letters, digits and \<open>- _ . ! ~ * ' ( )\<close> stay; any other
  code unit is percent-encoded in UTF-8 (one byte below 128, two bytes from 128 to
  255).\<close>

definition uriUnescaped :: "char \<Rightarrow> bool" where
  "uriUnescaped c =
     (let n = (of_char c :: nat)
      in (65 \<le> n \<and> n \<le> 90) \<or> (97 \<le> n \<and> n \<le> 122) \<or> (48 \<le> n \<and> n \<le> 57)
         \<or> n \<in> {45, 95, 46, 33, 126, 42, 39, 40, 41})"

definition encodeURIComponent :: "string \<Rightarrow> string" where
  "encodeURIComponent p =
     concat (map (\<lambda>c. let n = (of_char c :: nat)
                      in if uriUnescaped c then [c]
                         else if n < 128 then percent n
                         else percent (192 + n div 64) @ percent (128 + n mod 64)) p)"

text \<open>The listing URL \<^verbatim>\<open>api\<close> (line 402) and \<^verbatim>\<open>contentUrl\<close> (line 445).\<close>

definition api :: "string \<Rightarrow> string \<Rightarrow> string \<Rightarrow> string" where
  "api owner' repo' branch' =
     ''https://api.github.com/repos/'' @ owner' @ ''/'' @ repo' @ ''/git/trees/''
       @ branch' @ ''?recursive=1''"

definition contentUrl :: "string \<Rightarrow> string \<Rightarrow> string \<Rightarrow> string \<Rightarrow> string" where
  "contentUrl owner' repo' branch' p =
     ''https://api.github.com/repos/'' @ owner' @ ''/'' @ repo' @ ''/contents/''
       @ encodeURIComponent p @ ''?ref='' @ branch'"

text \<open>The \<open>Authorization\<close> header (line 400): set only for a truthy token.\<close>

definition authorization :: "string option \<Rightarrow> string option" where
  "authorization tok =
     (case tok of
        None \<Rightarrow> None
      | Some t \<Rightarrow> if t = [] then None else Some (''token '' @ t))"

text \<open>\<^verbatim>\<open>fetchJson\<close> (lines 404-416) with the headers of the pass, and \<^verbatim>\<open>fetchText\<close>
  (lines 542-571), which trims the body. Both are recorded in \<open>requests\<close>.\<close>

definition fetchJson :: "host \<Rightarrow> string option \<Rightarrow> string \<Rightarrow> world \<Rightarrow> response \<times> world" where
  "fetchJson h hdr url w = (https_get_json h hdr url, w\<lparr>requests := requests w @ [url]\<rparr>)"

definition fetchText :: "host \<Rightarrow> string \<Rightarrow> world \<Rightarrow> (string + string) \<times> world" where
  "fetchText h url w =
     (case https_get_text h url of
        Inl m \<Rightarrow> (Inl m, w\<lparr>requests := requests w @ [url]\<rparr>)
      | Inr buf \<Rightarrow> (Inr (trim buf), w\<lparr>requests := requests w @ [url]\<rparr>))"

subsection \<open>The download pass\<close>

text \<open>The options object, itself possibly missing; \<^verbatim>\<open>opts && opts.f\<close> is
  \<open>opt f opts\<close>.\<close>

record download_opts =
  owner :: "string option"
  repo :: "string option"
  branch :: "string option"
  token :: "string option"
  version :: "string option"

definition opt :: "(download_opts \<Rightarrow> string option) \<Rightarrow> download_opts option \<Rightarrow> string option" where
  "opt f opts = (case opts of None \<Rightarrow> None | Some r \<Rightarrow> f r)"

text \<open>The token of the pass (lines 388-394): the caller's, or else the stored one when
  keytar is there and does not throw.\<close>

definition resolve_token :: "host \<Rightarrow> download_opts option \<Rightarrow> world \<Rightarrow> string option" where
  "resolve_token h opts w =
     (let tok = or_null (opt token opts)
      in if \<not> truthy tok then
           (case keytar h of
              None \<Rightarrow> tok
            | Some k \<Rightarrow> (case keytar_getPassword k w of Inl m \<Rightarrow> tok | Inr v \<Rightarrow> v))
         else tok)"

text \<open>
  The body of the inner \<^verbatim>\<open>try\<close> of the loop (lines 445-461) for one item, \<open>i\<close> being
  the counter after \<^verbatim>\<open>i++\<close>: \<open>Some\<close> message when the item ends in \<open>errors\<close> (the
  request is rejected, there is no content, or decoding, or the write throws), \<open>None\<close>
  when the file is written and the progress event sent. The items of the loop passed
  the filter, so that \<^verbatim>\<open>item.path\<close> is the string \<open>entry_path item\<close>.
\<close>

definition download_item ::
  "host \<Rightarrow> string \<Rightarrow> string \<Rightarrow> string \<Rightarrow> string option \<Rightarrow> string \<Rightarrow> nat \<Rightarrow> nat
    \<Rightarrow> tree_entry \<Rightarrow> world \<Rightarrow> string option \<times> world" where
  "download_item h owner' repo' branch' hdr indicatorsDir n i item w =
     (let p = entry_path item;
          (fileResp, w1) = fetchJson h hdr (contentUrl owner' repo' branch' p) w
      in case fileResp of
           Rejected m \<Rightarrow> (Some m, w1)
         | Resolved None \<Rightarrow> (Some ''no content'', w1)
         | Resolved (Some j) \<Rightarrow>
             if truthy (content j) then
               (case Buffer_from h (or_else (content j) []) (or_else (encoding j) ''base64'') of
                  Inl m \<Rightarrow> (Some m, w1)
                | Inr buf \<Rightarrow>
                    (let outPath = path_join indicatorsDir (replace_backslashes p);
                         outDir = dirname outPath;
                         w2 = ensureDir h outDir w1
                     in case writeFileSync h outPath buf w2 of
                          Inl m \<Rightarrow> (Some m, w2)
                        | Inr w3 \<Rightarrow> (None, send h (DownloadProgress i n p) w3)))
             else (Some ''no content'', w1))"

text \<open>The loop (lines 441-466), with its counter and the two lists it appends to.\<close>

fun download_loop ::
  "host \<Rightarrow> string \<Rightarrow> string \<Rightarrow> string \<Rightarrow> string option \<Rightarrow> string \<Rightarrow> nat
    \<Rightarrow> tree_entry list \<Rightarrow> nat \<Rightarrow> string list \<Rightarrow> (string \<times> string) list \<Rightarrow> world
    \<Rightarrow> string list \<times> (string \<times> string) list \<times> world" where
  "download_loop h owner' repo' branch' hdr indicatorsDir n [] i dl errs w = (dl, errs, w)"
| "download_loop h owner' repo' branch' hdr indicatorsDir n (item # items) i dl errs w =
     (case download_item h owner' repo' branch' hdr indicatorsDir n (i + 1) item w of
        (None, w') \<Rightarrow>
          download_loop h owner' repo' branch' hdr indicatorsDir n items (i + 1)
            (dl @ [entry_path item]) errs w'
      | (Some m, w') \<Rightarrow>
          download_loop h owner' repo' branch' hdr indicatorsDir n items (i + 1)
            dl (errs @ [(entry_path item, m)]) w')"

text \<open>Lines 468-471: the marker is written for a truthy \<^verbatim>\<open>opts.version\<close>; a failure
  of the write is logged and swallowed.\<close>

definition write_version_file :: "host \<Rightarrow> download_opts option \<Rightarrow> string \<Rightarrow> world \<Rightarrow> world" where
  "write_version_file h opts indicatorsDir w =
     (if truthy (opt version opts) then
        (case writeFileSync h (path_join indicatorsDir ''indicator_version'')
                (or_else (opt version opts) []) w of
           Inl m \<Rightarrow> w
         | Inr w' \<Rightarrow> w')
      else w)"

text \<open>\<^verbatim>\<open>performDownloadIndicators\<close> (lines 383-488).\<close>

definition performDownloadIndicators ::
  "host \<Rightarrow> download_opts option \<Rightarrow> world \<Rightarrow> sync_result \<times> world" where
  "performDownloadIndicators h opts w =
     (let owner' = or_else (opt owner opts) [];
          repo' = or_else (opt repo opts) [];
          branch' = or_else (opt branch opts) ''main''
      in if owner' = [] \<or> repo' = [] then (Failure ''missing owner or repo'', w)
         else
           (let hdr = authorization (resolve_token h opts w);
                (indicatorsDir, w1) = getIndicatorsDir h w;
                w2 = ensureDir h indicatorsDir w1;
                (treeResp, w3) = fetchJson h hdr (api owner' repo' branch') w2
            in case treeResp of
                 Rejected m \<Rightarrow> (Failure m, send h (DownloadComplete (Failure m)) w3)
               | Resolved None \<Rightarrow> (Failure ''no tree'', w3)
               | Resolved (Some j) \<Rightarrow>
                   (case tree j of
                      None \<Rightarrow> (Failure ''no tree'', w3)
                    | Some entries \<Rightarrow>
                        (let files' = jsonFiles entries;
                             n = length files';
                             w4 = send h (DownloadStart owner' repo' branch' n) w3;
                             (dl, errs, w5) =
                               download_loop h owner' repo' branch' hdr indicatorsDir n
                                 files' 0 [] [] w4;
                             w6 = write_version_file h opts indicatorsDir w5;
                             result = Success (length dl) errs indicatorsDir
                         in (result, send h (DownloadComplete result) w6)))))"

subsection \<open>The automatic check\<close>

definition REMOTE_VERSION_URL :: string where
  "REMOTE_VERSION_URL =
     ''https://raw.githubusercontent.com/xmcllabs/V_Indicators/refs/heads/main/Indicator_version''"

definition AUTO_OWNER :: string where
  "AUTO_OWNER = ''xmcllabs''"

definition AUTO_REPO :: string where
  "AUTO_REPO = ''Indicators''"

text \<open>\<^verbatim>\<open>checkAndUpdateIndicators\<close> (lines 538-626). It returns nothing; what it does is
  the world it leaves.\<close>

definition checkAndUpdateIndicators :: "host \<Rightarrow> world \<Rightarrow> world" where
  "checkAndUpdateIndicators h w =
     (let (fetched, w1) = fetchText h REMOTE_VERSION_URL w;
          remoteVer = (case fetched of Inl m \<Rightarrow> None | Inr t \<Rightarrow> Some t)
      in if \<not> truthy remoteVer then w1
         else
           (let (installedVer, w2) = readInstalledIndicatorVersion h w1
            in if installedVer = remoteVer then w2
               else
                 (let tok = (case keytar h of
                               None \<Rightarrow> None
                             | Some k \<Rightarrow>
                                 (case keytar_getPassword k w2 of Inl m \<Rightarrow> None | Inr v \<Rightarrow> v));
                      (downloadResult, w3) =
                        performDownloadIndicators h
                          (Some \<lparr>owner = Some AUTO_OWNER, repo = Some AUTO_REPO,
                                 branch = Some ''main'', token = tok, version = remoteVer\<rparr>) w2
                  in send h (Updated (success downloadResult) (or_else remoteVer [])
                               downloadResult) w3)))"

subsection \<open>Notions used in the statements\<close>

text \<open>The probe of \<^verbatim>\<open>getIndicatorsDir\<close> as a condition on the host: a production build
  in which creating the directory next to the executable, writing the probe file and
  removing it again are all permitted.\<close>

definition install_dir_usable :: "host \<Rightarrow> bool" where
  "install_dir_usable h =
     (let installDirCandidate = path_join (dirname (execPath h)) ''indicators'';
          testFile = path_join installDirCandidate ''.write_test''
      in \<not> isDev h \<and> mkdir_error h installDirCandidate = None
         \<and> write_error h testFile = None \<and> unlink_error h testFile = None)"

text \<open>The directory the preference order of \<^verbatim>\<open>getIndicatorsDir\<close> names.\<close>

definition resolved_dir :: "host \<Rightarrow> string" where
  "resolved_dir h =
     (if install_dir_usable h then path_join (dirname (execPath h)) ''indicators''
      else path_join (userData h) ''indicators'')"

text \<open>The probe file \<^verbatim>\<open>.write_test\<close> in the directory next to the executable.\<close>

definition probe_file :: "host \<Rightarrow> string" where
  "probe_file h = path_join (path_join (dirname (execPath h)) ''indicators'') ''.write_test''"

text \<open>The identifiers, the header and the listing response of a pass, as
  \<^verbatim>\<open>performDownloadIndicators\<close> computes them from its options.\<close>

definition owner_of :: "download_opts option \<Rightarrow> string" where
  "owner_of opts = or_else (opt owner opts) []"

definition repo_of :: "download_opts option \<Rightarrow> string" where
  "repo_of opts = or_else (opt repo opts) []"

definition branch_of :: "download_opts option \<Rightarrow> string" where
  "branch_of opts = or_else (opt branch opts) ''main''"

definition pass_header :: "host \<Rightarrow> download_opts option \<Rightarrow> world \<Rightarrow> string option" where
  "pass_header h opts w = authorization (resolve_token h opts w)"

definition listing :: "host \<Rightarrow> download_opts option \<Rightarrow> world \<Rightarrow> response" where
  "listing h opts w =
     https_get_json h (pass_header h opts w) (api (owner_of opts) (repo_of opts) (branch_of opts))"

text \<open>The candidate files of a pass: \<open>None\<close> when the listing step fails (the request is
  rejected or the response has no \<open>tree\<close>).\<close>

definition candidates :: "host \<Rightarrow> download_opts option \<Rightarrow> world \<Rightarrow> tree_entry list option" where
  "candidates h opts w =
     (case listing h opts w of
        Rejected m \<Rightarrow> None
      | Resolved None \<Rightarrow> None
      | Resolved (Some j) \<Rightarrow> map_option jsonFiles (tree j))"

text \<open>A candidate file fails when its content request is rejected or carries no
  content, when the payload cannot be decoded, or when the write is refused.\<close>

definition file_fails ::
  "host \<Rightarrow> string \<Rightarrow> string \<Rightarrow> string \<Rightarrow> string option \<Rightarrow> string \<Rightarrow> tree_entry \<Rightarrow> bool" where
  "file_fails h owner' repo' branch' hdr indicatorsDir item =
     (case https_get_json h hdr (contentUrl owner' repo' branch' (entry_path item)) of
        Rejected m \<Rightarrow> True
      | Resolved None \<Rightarrow> True
      | Resolved (Some j) \<Rightarrow>
          (if truthy (content j) then
             (case Buffer_from h (or_else (content j) []) (or_else (encoding j) ''base64'') of
                Inl m \<Rightarrow> True
              | Inr buf \<Rightarrow>
                  write_error h (path_join indicatorsDir (replace_backslashes (entry_path item)))
                    \<noteq> None)
           else True))"

definition pass_fails :: "host \<Rightarrow> download_opts option \<Rightarrow> world \<Rightarrow> tree_entry \<Rightarrow> bool" where
  "pass_fails h opts w item =
     file_fails h (owner_of opts) (repo_of opts) (branch_of opts) (pass_header h opts w)
       (resolved_dir h) item"

text \<open>The progress events of a run of the loop whose counter starts at \<open>i\<close>: one for
  each item that does not fail, carrying the item's position.\<close>

definition progress_from ::
  "(tree_entry \<Rightarrow> bool) \<Rightarrow> nat \<Rightarrow> nat \<Rightarrow> tree_entry list \<Rightarrow> event list" where
  "progress_from fails n i items =
     map (\<lambda>k. DownloadProgress (i + Suc k) n (entry_path (items ! k)))
       (filter (\<lambda>k. \<not> fails (items ! k)) [0..<length items])"

text \<open>A file name: one segment that normalisation leaves alone.\<close>

definition plain_segment :: "string \<Rightarrow> bool" where
  "plain_segment b = (b \<noteq> [] \<and> CHR ''/'' \<notin> set b \<and> b \<noteq> ''.'' \<and> b \<noteq> ''..'')"

text \<open>The path of the version marker in the resolved directory.\<close>

definition version_file :: "host \<Rightarrow> string" where
  "version_file h = path_join (resolved_dir h) ''indicator_version''"

text \<open>The remote version as \<^verbatim>\<open>checkAndUpdateIndicators\<close> sees it: the trimmed body, or
  \<^verbatim>\<open>null\<close> when the request fails.\<close>

definition remote_version :: "host \<Rightarrow> string option" where
  "remote_version h =
     (case https_get_text h REMOTE_VERSION_URL of Inl m \<Rightarrow> None | Inr body \<Rightarrow> Some (trim body))"

text \<open>The decision of the two guards of \<^verbatim>\<open>checkAndUpdateIndicators\<close> (lines 579 and 587)
  on the installed and the remote version.\<close>

definition needsSync :: "string option \<Rightarrow> string option \<Rightarrow> bool" where
  "needsSync installedVer remoteVer = (truthy remoteVer \<and> installedVer \<noteq> remoteVer)"

text \<open>The token keytar holds, as the automatic check reads it (lines 595-605), and the
  options the check passes to the download pass (line 608).\<close>

definition stored_token :: "host \<Rightarrow> world \<Rightarrow> string option" where
  "stored_token h w =
     (case keytar h of
        None \<Rightarrow> None
      | Some k \<Rightarrow> (case keytar_getPassword k w of Inl m \<Rightarrow> None | Inr v \<Rightarrow> v))"

definition auto_opts :: "string option \<Rightarrow> string option \<Rightarrow> download_opts option" where
  "auto_opts tok remoteVer =
     Some \<lparr>owner = Some AUTO_OWNER, repo = Some AUTO_REPO, branch = Some ''main'',
           token = tok, version = remoteVer\<rparr>"

text \<open>A download pass of the automatic check shows in the world: its listing request is
  among the requests made since \<open>w\<close>.\<close>

definition pass_requested :: "world \<Rightarrow> world \<Rightarrow> bool" where
  "pass_requested w w' =
     (api AUTO_OWNER AUTO_REPO ''main'' \<in> set (drop (length (requests w)) (requests w')))"

definition is_progress :: "event \<Rightarrow> bool" where
  "is_progress e = (case e of DownloadProgress c t p \<Rightarrow> True | _ \<Rightarrow> False)"

subsection \<open>The end-to-end scenario of the specification, and variations\<close>

text \<open>A production build with a writable install directory, no keytar and a window; the
  remote tree has two indicator files and a readme, the remote version is \<open>v2\<close>, and
  nothing is installed. The decoder of the scenario keeps a base64 payload as it is.\<close>

definition scenario_tree :: "tree_entry list" where
  "scenario_tree =
     [\<lparr>path = Some ''indicators/a.json'', type = Some ''blob''\<rparr>,
      \<lparr>path = Some ''readme.md'', type = Some ''blob''\<rparr>,
      \<lparr>path = Some ''indicators/b.json'', type = Some ''blob''\<rparr>]"

definition scenario_opts :: "download_opts option" where
  "scenario_opts =
     Some \<lparr>owner = Some AUTO_OWNER, repo = Some AUTO_REPO, branch = Some ''main'',
           token = None, version = Some ''v2''\<rparr>"

definition scenario_net :: "string option \<Rightarrow> string \<Rightarrow> response" where
  "scenario_net hdr url =
     (if url = api AUTO_OWNER AUTO_REPO ''main''
      then Resolved (Some \<lparr>tree = Some scenario_tree, content = None, encoding = None\<rparr>)
      else if url = contentUrl AUTO_OWNER AUTO_REPO ''main'' ''indicators/a.json''
      then Resolved (Some \<lparr>tree = None, content = Some ''e30='', encoding = Some ''base64''\<rparr>)
      else if url = contentUrl AUTO_OWNER AUTO_REPO ''main'' ''indicators/b.json''
      then Resolved (Some \<lparr>tree = None, content = Some ''W10='', encoding = Some ''base64''\<rparr>)
      else Rejected ''Not Found'')"

definition scenario_host :: host where
  "scenario_host =
     \<lparr>isDev = False, execPath = ''/opt/WorldData/worlddata'',
      userData = ''/home/user/.config/WorldData'',
      mkdir_error = (\<lambda>d. None), write_error = (\<lambda>p. None),
      unlink_error = (\<lambda>p. None), read_error = (\<lambda>p. None),
      keytar = None,
      https_get_json = scenario_net,
      https_get_text = (\<lambda>url. if url = REMOTE_VERSION_URL then Inr ''v2'' else Inl ''Not Found''),
      Buffer_from = (\<lambda>c enc. if enc = ''base64'' then Inr c else Inl ''Unknown encoding''),
      mainWindow = True\<rparr>"

definition scenario_world :: world where
  "scenario_world =
     \<lparr>files = Map.empty, dirs = {}, password = None, requests = [], events = []\<rparr>"

text \<open>The same disk with the version \<open>v2\<close> installed.\<close>

definition installed_world :: world where
  "installed_world =
     scenario_world\<lparr>files := [''/opt/WorldData/indicators/indicator_version'' \<mapsto> ''v2'']\<rparr>"

text \<open>The call \<^verbatim>\<open>downloadIndicators({})\<close>.\<close>

definition no_opts :: "download_opts option" where
  "no_opts = Some \<lparr>owner = None, repo = None, branch = None, token = None, version = None\<rparr>"

text \<open>A version with white space around it.\<close>

definition padded_opts :: "download_opts option" where
  "padded_opts =
     Some \<lparr>owner = Some AUTO_OWNER, repo = Some AUTO_REPO, branch = Some ''main'',
           token = None, version = Some '' v2 ''\<rparr>"

text \<open>The request for the first file times out.\<close>

definition flaky_host :: host where
  "flaky_host =
     scenario_host\<lparr>https_get_json :=
       (\<lambda>hdr url. if url = contentUrl AUTO_OWNER AUTO_REPO ''main'' ''indicators/a.json''
                   then Rejected ''timeout'' else scenario_net hdr url)\<rparr>"

text \<open>Every repository request times out.\<close>

definition offline_host :: host where
  "offline_host = scenario_host\<lparr>https_get_json := (\<lambda>hdr url. Rejected ''timeout'')\<rparr>"

text \<open>The directory next to the executable cannot be created.\<close>

definition readonly_install_host :: host where
  "readonly_install_host =
     scenario_host\<lparr>mkdir_error :=
       (\<lambda>d. if d = ''/opt/WorldData/indicators'' then Some ''EACCES'' else None)\<rparr>"

text \<open>The remote version file holds a single space.\<close>

definition empty_remote_host :: host where
  "empty_remote_host = scenario_host\<lparr>https_get_text := (\<lambda>url. Inr '' '')\<rparr>"

text \<open>keytar is there, and each of its calls throws.\<close>

definition throwing_keytar_host :: host where
  "throwing_keytar_host =
     scenario_host\<lparr>keytar := Some \<lparr>setPassword_error = Some ''locked'',
       getPassword_error = Some ''locked'', deletePassword_error = Some ''locked''\<rparr>\<rparr>"

section \<open>Properties\<close>

subsection \<open>The candidate filter\<close>

lemma is_json_file_iff: "is_json_file e = spec_candidate e"
proof (cases "path e")
  case None
  then show ?thesis
    by (simp add: is_json_file_def spec_candidate_def entry_path_def or_else_def
        startsWith_def endsWith_def)
next
  case (Some p)
  have "p = [] \<Longrightarrow> \<not> prefix ''indicators/'' p" by simp
  with Some show ?thesis
    by (auto simp: is_json_file_def spec_candidate_def entry_path_def or_else_def
        startsWith_def endsWith_def prefix_def suffix_def)
qed

text \<open>
  C3. The candidate filter returns exactly the entries of the tree that are blobs
  under \<open>indicators/\<close> whose lowercased path ends with \<open>.json\<close>, with their
  multiplicities, and in the order of the input tree.
\<close>

theorem C3_candidate_filter:
  "jsonFiles entries = filter spec_candidate entries
   \<and> subseq (jsonFiles entries) entries
   \<and> set (jsonFiles entries) = {e \<in> set entries. spec_candidate e}"
proof -
  have "is_json_file = spec_candidate"
    by (rule ext) (rule is_json_file_iff)
  then show ?thesis
    by (simp add: jsonFiles_def)
qed

text \<open>On the tree of the scenario the readme is dropped and the two indicator files
  stay, in their order.\<close>

theorem C3_candidate_filter_witness:
  "filter spec_candidate scenario_tree =
     [\<lparr>path = Some ''indicators/a.json'', type = Some ''blob''\<rparr>,
      \<lparr>path = Some ''indicators/b.json'', type = Some ''blob''\<rparr>]"
proof -
  have "jsonFiles scenario_tree =
     [\<lparr>path = Some ''indicators/a.json'', type = Some ''blob''\<rparr>,
      \<lparr>path = Some ''indicators/b.json'', type = Some ''blob''\<rparr>]"
    by code_simp
  with C3_candidate_filter[of scenario_tree] show ?thesis
    by simp
qed

subsection \<open>The indicators directory\<close>

lemma dirname_nonempty: "dirname p \<noteq> []"
proof -
  define r where
    "r = dropWhile (\<lambda>c. c \<noteq> CHR ''/'') (dropWhile (\<lambda>c. c = CHR ''/'') (rev (tl p)))"
  have d: "dirname p =
     (if p = [] then ''.''
      else if r = [] then (if hd p = CHR ''/'' then ''/'' else ''.'')
      else if hd p = CHR ''/'' \<and> length r = 1 then ''//''
      else take (length r) p)"
    unfolding dirname_def Let_def r_def ..
  have t: "take (length r) p \<noteq> []" if "p \<noteq> []" "r \<noteq> []"
    using that by (cases p; cases r) simp_all
  show ?thesis
  proof (cases "p = []")
    case True
    then show ?thesis unfolding d by simp
  next
    case p: False
    show ?thesis
    proof (cases "r = []")
      case True
      with p show ?thesis unfolding d by simp
    next
      case False
      with p t show ?thesis unfolding d by simp
    qed
  qed
qed

lemma getIndicatorsDir_fst: "fst (getIndicatorsDir h w) = resolved_dir h"
  by (auto simp: getIndicatorsDir_def resolved_dir_def install_dir_usable_def Let_def
      dirname_nonempty userDataIndicatorsDir_def mkdirSync_def writeFileSync_def unlinkSync_def
      split: option.splits sum.splits)

lemma getIndicatorsDir_files:
  "p \<noteq> probe_file h \<Longrightarrow> files (snd (getIndicatorsDir h w)) p = files w p"
  by (auto simp: getIndicatorsDir_def probe_file_def Let_def
      dirname_nonempty userDataIndicatorsDir_def mkdirSync_def writeFileSync_def unlinkSync_def
      split: option.splits sum.splits if_splits)

lemma getIndicatorsDir_other:
  "password (snd (getIndicatorsDir h w)) = password w"
  "requests (snd (getIndicatorsDir h w)) = requests w"
  "events (snd (getIndicatorsDir h w)) = events w"
  "dirs w \<subseteq> dirs (snd (getIndicatorsDir h w))"
  by (auto simp: getIndicatorsDir_def probe_file_def Let_def
      dirname_nonempty userDataIndicatorsDir_def mkdirSync_def writeFileSync_def unlinkSync_def
      split: option.splits sum.splits if_splits)

lemma ensureDir_fields:
  "files (ensureDir h d w) = files w"
  "events (ensureDir h d w) = events w"
  "requests (ensureDir h d w) = requests w"
  "password (ensureDir h d w) = password w"
  by (simp_all add: ensureDir_def mkdirSync_def split: option.splits)

lemma ensureDir_dirs: "dirs w \<subseteq> dirs (ensureDir h d w)"
  by (auto simp: ensureDir_def mkdirSync_def split: option.splits)

lemma send_fields:
  "files (send h e w) = files w"
  "dirs (send h e w) = dirs w"
  "requests (send h e w) = requests w"
  "password (send h e w) = password w"
  by (simp_all add: send_def)

lemma getIndicatorsDir_probe:
  "install_dir_usable h \<Longrightarrow>
     path_join (dirname (execPath h)) ''indicators'' \<in> dirs (snd (getIndicatorsDir h w))
     \<and> files (snd (getIndicatorsDir h w)) (probe_file h) = None"
  by (auto simp: getIndicatorsDir_def install_dir_usable_def probe_file_def Let_def
      dirname_nonempty mkdirSync_def writeFileSync_def unlinkSync_def
      split: option.splits sum.splits)

text \<open>
  C8 (as amended). \<^verbatim>\<open>getIndicatorsDir\<close> keeps no memo: whatever the world holds and
  whatever was resolved before, a call returns the directory next to the executable
  exactly when the build is a production build and the probe of that directory
  (create it, write \<open>.write_test\<close>, remove it) succeeds at the time of the call, and the
  per-user directory otherwise; a probe that succeeds is carried out by that very
  call (the directory exists afterwards and the probe file does not). So two calls in
  one run (same build kind, same base paths) return the same path whenever the probe
  has the same outcome at both, and different paths when the outcome differs and the
  two directories are distinct.
\<close>

theorem C8_directory_resolution:
  "fst (getIndicatorsDir h w) =
     (if install_dir_usable h then path_join (dirname (execPath h)) ''indicators''
      else path_join (userData h) ''indicators'')
   \<and> (install_dir_usable h \<longrightarrow>
        path_join (dirname (execPath h)) ''indicators'' \<in> dirs (snd (getIndicatorsDir h w))
        \<and> files (snd (getIndicatorsDir h w)) (probe_file h) = None)
   \<and> (\<forall>h' w'. isDev h' = isDev h \<and> execPath h' = execPath h \<and> userData h' = userData h
          \<and> install_dir_usable h' = install_dir_usable h
        \<longrightarrow> fst (getIndicatorsDir h' w') = fst (getIndicatorsDir h w))
   \<and> (\<forall>h' w'. isDev h' = isDev h \<and> execPath h' = execPath h \<and> userData h' = userData h
          \<and> install_dir_usable h' \<noteq> install_dir_usable h
          \<and> path_join (dirname (execPath h)) ''indicators'' \<noteq> path_join (userData h) ''indicators''
        \<longrightarrow> fst (getIndicatorsDir h' w') \<noteq> fst (getIndicatorsDir h w))"
proof -
  have 1: "fst (getIndicatorsDir h w) =
     (if install_dir_usable h then path_join (dirname (execPath h)) ''indicators''
      else path_join (userData h) ''indicators'')"
    by (simp add: getIndicatorsDir_fst resolved_dir_def)
  have 3: "fst (getIndicatorsDir h' w') = fst (getIndicatorsDir h w)"
    if "execPath h' = execPath h" "userData h' = userData h"
      "install_dir_usable h' = install_dir_usable h" for h' w'
    using that by (simp add: getIndicatorsDir_fst resolved_dir_def)
  have 4: "fst (getIndicatorsDir h' w') \<noteq> fst (getIndicatorsDir h w)"
    if "execPath h' = execPath h" "userData h' = userData h"
      "install_dir_usable h' \<noteq> install_dir_usable h"
      "path_join (dirname (execPath h)) ''indicators'' \<noteq> path_join (userData h) ''indicators''"
    for h' w'
    using that by (auto simp: getIndicatorsDir_fst resolved_dir_def)
  from 1 getIndicatorsDir_probe[of h w] 3 4 show ?thesis
    by blast
qed

text \<open>In the scenario the directory next to the executable is returned and created; a
  host that differs in the network only gives the same path, and one on which that
  directory cannot be created gives another.\<close>

theorem C8_directory_resolution_witness:
  "fst (getIndicatorsDir scenario_host scenario_world) = ''/opt/WorldData/indicators''
   \<and> ''/opt/WorldData/indicators'' \<in> dirs (snd (getIndicatorsDir scenario_host scenario_world))
   \<and> files (snd (getIndicatorsDir scenario_host scenario_world))
        ''/opt/WorldData/indicators/.write_test'' = None
   \<and> fst (getIndicatorsDir flaky_host (snd (getIndicatorsDir scenario_host scenario_world)))
       = fst (getIndicatorsDir scenario_host scenario_world)
   \<and> fst (getIndicatorsDir readonly_install_host
            (snd (getIndicatorsDir scenario_host scenario_world)))
       \<noteq> fst (getIndicatorsDir scenario_host scenario_world)"
proof -
  have u: "install_dir_usable scenario_host" by code_simp
  have c: "path_join (dirname (execPath scenario_host)) ''indicators'' = ''/opt/WorldData/indicators''"
    by code_simp
  have ud: "path_join (userData scenario_host) ''indicators''
     = ''/home/user/.config/WorldData/indicators''"
    by code_simp
  have p: "probe_file scenario_host = ''/opt/WorldData/indicators/.write_test''"
    by code_simp
  have a: "isDev flaky_host = isDev scenario_host \<and> execPath flaky_host = execPath scenario_host
      \<and> userData flaky_host = userData scenario_host
      \<and> install_dir_usable flaky_host = install_dir_usable scenario_host"
    by code_simp
  have b: "isDev readonly_install_host = isDev scenario_host
      \<and> execPath readonly_install_host = execPath scenario_host
      \<and> userData readonly_install_host = userData scenario_host
      \<and> install_dir_usable readonly_install_host \<noteq> install_dir_usable scenario_host"
    by code_simp
  note t = C8_directory_resolution[of scenario_host scenario_world]
  from t u have 1: "fst (getIndicatorsDir scenario_host scenario_world) = ''/opt/WorldData/indicators''"
    unfolding c by simp
  from t u have 2: "''/opt/WorldData/indicators'' \<in> dirs (snd (getIndicatorsDir scenario_host scenario_world))"
    and 3: "files (snd (getIndicatorsDir scenario_host scenario_world))
        ''/opt/WorldData/indicators/.write_test'' = None"
    unfolding c p by blast+
  from t a have 4: "fst (getIndicatorsDir flaky_host (snd (getIndicatorsDir scenario_host scenario_world)))
       = fst (getIndicatorsDir scenario_host scenario_world)"
    by blast
  have ne: "path_join (dirname (execPath scenario_host)) ''indicators''
     \<noteq> path_join (userData scenario_host) ''indicators''"
    unfolding c ud by simp
  from t b ne have 5: "fst (getIndicatorsDir readonly_install_host
            (snd (getIndicatorsDir scenario_host scenario_world)))
       \<noteq> fst (getIndicatorsDir scenario_host scenario_world)"
    by blast
  from 1 2 3 4 5 show ?thesis by (intro conjI)
qed

text \<open>Within one run (same build, same base paths), a first call made while the install
  directory cannot be created and a second call made after it has become writable
  return different paths.\<close>

theorem C8_memoized_counterexample:
  "fst (getIndicatorsDir readonly_install_host scenario_world)
     \<noteq> fst (getIndicatorsDir scenario_host
            (snd (getIndicatorsDir readonly_install_host scenario_world)))
   \<and> fst (getIndicatorsDir readonly_install_host scenario_world)
     = ''/home/user/.config/WorldData/indicators''
   \<and> fst (getIndicatorsDir scenario_host
            (snd (getIndicatorsDir readonly_install_host scenario_world)))
     = ''/opt/WorldData/indicators''
   \<and> isDev readonly_install_host = isDev scenario_host
   \<and> execPath readonly_install_host = execPath scenario_host
   \<and> userData readonly_install_host = userData scenario_host"
  by code_simp

subsection \<open>The version marker\<close>

lemma split_slash_nonempty: "split_slash p \<noteq> []"
  by (induction p) (simp_all split: list.splits)

lemma split_slash_append: "split_slash (a @ CHR ''/'' # b) = split_slash a @ split_slash b"
proof (induction a)
  case Nil
  then show ?case by simp
next
  case (Cons c a)
  then show ?case
    using split_slash_nonempty[of a] by (cases "split_slash a") simp_all
qed

lemma split_slash_plain: "CHR ''/'' \<notin> set b \<Longrightarrow> split_slash b = [b]"
  by (induction b) auto

lemma join_slash_snoc:
  "join_slash (res @ [b]) = (if res = [] then b else join_slash res @ CHR ''/'' # b)"
  by (induction res rule: join_slash.induct) simp_all

lemma normalizeString_ends:
  assumes "plain_segment b" and "split_slash p = segs @ [b]"
  shows "normalizeString p allow \<noteq> [] \<and> last (normalizeString p allow) = last b"
proof -
  from assms(1) have b: "b \<noteq> []" "b \<noteq> ''.''" "b \<noteq> ''..''"
    by (simp_all add: plain_segment_def)
  have "normalizeString p allow = join_slash (foldl (normalize_step allow) [] segs @ [b])"
    using b by (simp add: normalizeString_def assms(2) normalize_step_def)
  with b(1) show ?thesis
    by (simp add: join_slash_snoc)
qed

lemma path_normalize_ends:
  assumes "plain_segment b" and "split_slash p = segs @ [b]" and "last p = last b" and "p \<noteq> []"
  shows "last (path_normalize p) = last b"
proof -
  from assms(1) have "b \<noteq> []" "CHR ''/'' \<notin> set b"
    by (simp_all add: plain_segment_def)
  then have "last b \<in> set b" "CHR ''/'' \<notin> set b"
    by simp_all
  then have lb: "last b \<noteq> CHR ''/''"
    by metis
  from normalizeString_ends[OF assms(1,2)] have
    q: "normalizeString p allow \<noteq> []" "last (normalizeString p allow) = last b" for allow
    by simp_all
  show ?thesis
    unfolding path_normalize_def Let_def
    using assms(3,4) lb q by simp
qed

text \<open>A path joined with a file name ends as the file name does.\<close>

lemma last_path_join:
  assumes "plain_segment b"
  shows "last (path_join a b) = last b"
proof -
  from assms have b: "b \<noteq> []" "CHR ''/'' \<notin> set b"
    by (simp_all add: plain_segment_def)
  show ?thesis
  proof (cases "a = []")
    case True
    have "last (path_normalize b) = last b"
      by (rule path_normalize_ends[OF assms, of b "[]"]) (simp_all add: split_slash_plain b)
    with True b show ?thesis by (simp add: path_join_def)
  next
    case False
    have "last (path_normalize (a @ CHR ''/'' # b)) = last b"
      by (rule path_normalize_ends[OF assms, of _ "split_slash a"])
         (simp_all add: split_slash_append split_slash_plain b)
    with False b show ?thesis by (simp add: path_join_def)
  qed
qed

lemma version_file_neq_probe: "path_join d ''indicator_version'' \<noteq> probe_file h"
proof
  assume "path_join d ''indicator_version'' = probe_file h"
  then have "last (path_join d ''indicator_version'')
     = last (path_join (path_join (dirname (execPath h)) ''indicators'') ''.write_test'')"
    by (simp add: probe_file_def)
  then show False
    by (simp add: last_path_join plain_segment_def)
qed

text \<open>What a read of the marker returns depends on the marker file alone.\<close>

lemma readInstalledIndicatorVersion_fst:
  "fst (readInstalledIndicatorVersion h w) =
     (case files w (version_file h) of
        None \<Rightarrow> None
      | Some c \<Rightarrow> if read_error h (version_file h) = None then or_null (Some (trim c)) else None)"
proof -
  obtain d w1 where g: "getIndicatorsDir h w = (d, w1)"
    by (cases "getIndicatorsDir h w")
  from g getIndicatorsDir_fst[of h w] have d: "d = resolved_dir h" by simp
  have "files (snd (getIndicatorsDir h w)) (version_file h) = files w (version_file h)"
    unfolding version_file_def
    by (rule getIndicatorsDir_files) (rule version_file_neq_probe)
  with g have f: "files w1 (version_file h) = files w (version_file h)"
    by simp
  show ?thesis
    using g f
    by (auto simp: readInstalledIndicatorVersion_def d version_file_def[symmetric]
        existsSync_def readFileSync_def Let_def split: option.splits)
qed

lemma write_version_file_fields:
  "events (write_version_file h opts d w) = events w"
  "requests (write_version_file h opts d w) = requests w"
  by (simp_all add: write_version_file_def writeFileSync_def split: option.splits)

lemma write_version_file_written:
  "opt version opts = Some v \<Longrightarrow> v \<noteq> [] \<Longrightarrow>
   write_error h (path_join d ''indicator_version'') = None \<Longrightarrow>
   files (write_version_file h opts d w) (path_join d ''indicator_version'') = Some v"
  by (simp add: write_version_file_def writeFileSync_def truthy_def or_else_def)

subsection \<open>Token storage\<close>

text \<open>
  C7. Without keytar the three credential operations change nothing and return
  \<^verbatim>\<open>false\<close>, \<^verbatim>\<open>null\<close> and \<^verbatim>\<open>false\<close>; with keytar, an operation whose keytar call
  throws returns the same value and changes nothing. The handlers are total: they
  return a value in every case.
\<close>

theorem C7_credentials_fail_soft:
  "(keytar h = None \<longrightarrow>
      store_indicator_token h tok w = (False, w) \<and> get_indicator_token h w = (None, w)
      \<and> delete_indicator_token h w = (False, w))
   \<and> (\<forall>k m. keytar h = Some k \<and> setPassword_error k = Some m \<longrightarrow>
         store_indicator_token h tok w = (False, w))
   \<and> (\<forall>k m. keytar h = Some k \<and> getPassword_error k = Some m \<longrightarrow>
         get_indicator_token h w = (None, w))
   \<and> (\<forall>k m. keytar h = Some k \<and> deletePassword_error k = Some m \<longrightarrow>
         delete_indicator_token h w = (False, w))"
  by (simp add: store_indicator_token_def get_indicator_token_def delete_indicator_token_def
      keytar_setPassword_def keytar_getPassword_def keytar_deletePassword_def)

theorem C7_credentials_fail_soft_witness:
  "store_indicator_token scenario_host (Some ''x'') scenario_world = (False, scenario_world)
   \<and> get_indicator_token scenario_host scenario_world = (None, scenario_world)
   \<and> delete_indicator_token scenario_host scenario_world = (False, scenario_world)
   \<and> store_indicator_token throwing_keytar_host (Some ''x'') scenario_world
       = (False, scenario_world)
   \<and> get_indicator_token throwing_keytar_host scenario_world = (None, scenario_world)
   \<and> delete_indicator_token throwing_keytar_host scenario_world = (False, scenario_world)"
proof -
  have a: "keytar scenario_host = None" by (simp add: scenario_host_def)
  have b: "keytar throwing_keytar_host = Some \<lparr>setPassword_error = Some ''locked'',
       getPassword_error = Some ''locked'', deletePassword_error = Some ''locked''\<rparr>"
    by (simp add: throwing_keytar_host_def)
  from C7_credentials_fail_soft[of scenario_host "Some ''x''" scenario_world] a
       C7_credentials_fail_soft[of throwing_keytar_host "Some ''x''" scenario_world] b
  show ?thesis by simp
qed

subsection \<open>The download pass\<close>

text \<open>
  C4. When the options carry no owner or no repo (missing or empty), the pass returns
  the failure result \<open>missing owner or repo\<close> at once and leaves the world as it was:
  no request is made, and neither the disk nor anything else changes.
\<close>

theorem C4_missing_configuration:
  assumes "\<not> truthy (opt owner opts) \<or> \<not> truthy (opt repo opts)"
  shows "performDownloadIndicators h opts w = (Failure ''missing owner or repo'', w)
     \<and> \<not> success (fst (performDownloadIndicators h opts w))
     \<and> requests (snd (performDownloadIndicators h opts w)) = requests w"
proof -
  from assms have "or_else (opt owner opts) [] = [] \<or> or_else (opt repo opts) [] = []"
    by (auto simp: truthy_def or_else_def split: option.splits)
  then have "performDownloadIndicators h opts w = (Failure ''missing owner or repo'', w)"
    by (auto simp: performDownloadIndicators_def Let_def)
  then show ?thesis
    by (simp add: success_def)
qed

theorem C4_missing_configuration_witness:
  "performDownloadIndicators scenario_host no_opts scenario_world
     = (Failure ''missing owner or repo'', scenario_world)
   \<and> requests (snd (performDownloadIndicators scenario_host no_opts scenario_world)) = []"
proof -
  have h: "\<not> truthy (opt owner no_opts) \<or> \<not> truthy (opt repo no_opts)"
    by (simp add: truthy_def opt_def no_opts_def)
  have r: "requests scenario_world = []" by (simp add: scenario_world_def)
  from C4_missing_configuration[OF h, of scenario_host scenario_world] r show ?thesis by simp
qed

lemma download_item_fails:
  "file_fails h ow re br hdr d item \<Longrightarrow>
     \<exists>m. download_item h ow re br hdr d n i item w =
           (Some m, snd (download_item h ow re br hdr d n i item w))
        \<and> events (snd (download_item h ow re br hdr d n i item w)) = events w"
  by (auto simp: file_fails_def download_item_def fetchJson_def Let_def writeFileSync_def
      ensureDir_def mkdirSync_def send_def
      split: response.splits option.splits sum.splits if_splits)

lemma download_item_ok:
  "\<not> file_fails h ow re br hdr d item \<Longrightarrow>
     fst (download_item h ow re br hdr d n i item w) = None
     \<and> events (snd (download_item h ow re br hdr d n i item w)) =
         events w @ (if mainWindow h then [DownloadProgress i n (entry_path item)] else [])"
  by (auto simp: file_fails_def download_item_def fetchJson_def Let_def writeFileSync_def
      ensureDir_def mkdirSync_def send_def
      split: response.splits option.splits sum.splits if_splits)

lemma progress_from_Nil: "progress_from fails n i [] = []"
  by (simp add: progress_from_def)

lemma progress_from_Cons:
  "progress_from fails n i (x # xs) =
     (if fails x then [] else [DownloadProgress (Suc i) n (entry_path x)])
       @ progress_from fails n (Suc i) xs"
proof -
  have u: "[0..<length (x # xs)] = 0 # map Suc [0..<length xs]"
    by (simp add: upt_conv_Cons map_Suc_upt del: upt_Suc)
  show ?thesis
    unfolding progress_from_def u
    by (simp add: filter_map comp_def)
qed

text \<open>The loop sorts every item into exactly one of its two lists, by whether the item
  fails, and sends a progress event with the counter for each one that does not.\<close>

lemma download_loop_result:
  "download_loop h ow re br hdr d n items i dl errs w = (dl', errs', w') \<Longrightarrow>
     dl' = dl @ map entry_path (filter (\<lambda>x. \<not> file_fails h ow re br hdr d x) items)
     \<and> map fst errs' = map fst errs @ map entry_path (filter (file_fails h ow re br hdr d) items)
     \<and> events w' = events w @
          (if mainWindow h then progress_from (file_fails h ow re br hdr d) n i items else [])"
proof (induction items arbitrary: i dl errs w)
  case Nil
  then show ?case by (simp add: progress_from_Nil)
next
  case (Cons item items)
  obtain r w1 where step: "download_item h ow re br hdr d n (Suc i) item w = (r, w1)"
    by (cases "download_item h ow re br hdr d n (Suc i) item w")
  show ?case
  proof (cases "file_fails h ow re br hdr d item")
    case True
    from download_item_fails[OF True, of n "Suc i" w] step obtain m where
      r: "r = Some m" and ev: "events w1 = events w"
      by auto
    from Cons.prems step r have
      "download_loop h ow re br hdr d n items (Suc i) dl (errs @ [(entry_path item, m)]) w1
         = (dl', errs', w')"
      by simp
    from Cons.IH[OF this] True ev show ?thesis
      by (simp add: progress_from_Cons)
  next
    case False
    from download_item_ok[OF False, of n "Suc i" w] step have
      r: "r = None" and ev: "events w1 =
         events w @ (if mainWindow h then [DownloadProgress (Suc i) n (entry_path item)] else [])"
      by simp_all
    from Cons.prems step r have
      "download_loop h ow re br hdr d n items (Suc i) (dl @ [entry_path item]) errs w1
         = (dl', errs', w')"
      by simp
    from Cons.IH[OF this] False ev show ?thesis
      by (simp add: progress_from_Cons)
  qed
qed

text \<open>A pass whose listing succeeds runs the loop on the candidates, writes the marker
  and reports success.\<close>

lemma perform_listing_ok:
  assumes "owner_of opts \<noteq> []" "repo_of opts \<noteq> []" "candidates h opts w = Some cands"
  shows "\<exists>dl errs w2 w5.
           performDownloadIndicators h opts w =
             (Success (length dl) errs (resolved_dir h),
              send h (DownloadComplete (Success (length dl) errs (resolved_dir h)))
                (write_version_file h opts (resolved_dir h) w5))
           \<and> download_loop h (owner_of opts) (repo_of opts) (branch_of opts) (pass_header h opts w)
                (resolved_dir h) (length cands) cands 0 [] []
                (send h (DownloadStart (owner_of opts) (repo_of opts) (branch_of opts) (length cands)) w2)
               = (dl, errs, w5)
           \<and> events w2 = events w
           \<and> requests w2 = requests w @ [api (owner_of opts) (repo_of opts) (branch_of opts)]"
proof -
  obtain d w1 where g: "getIndicatorsDir h w = (d, w1)"
    by (cases "getIndicatorsDir h w")
  from g getIndicatorsDir_fst[of h w] have d: "d = resolved_dir h" by simp
  from g getIndicatorsDir_other(3)[of h w] have e1: "events w1 = events w" by simp
  from g getIndicatorsDir_other(2)[of h w] have q1: "requests w1 = requests w" by simp
  define w2 where "w2 = (ensureDir h d w1)\<lparr>requests := requests (ensureDir h d w1) @
     [api (owner_of opts) (repo_of opts) (branch_of opts)]\<rparr>"
  have e2: "events w2 = events w"
    by (simp add: w2_def ensureDir_fields e1)
  have q2: "requests w2 = requests w @ [api (owner_of opts) (repo_of opts) (branch_of opts)]"
    by (simp add: w2_def ensureDir_fields q1)
  obtain dl errs w5 where loop:
    "download_loop h (owner_of opts) (repo_of opts) (branch_of opts) (pass_header h opts w)
       (resolved_dir h) (length cands) cands 0 [] []
       (send h (DownloadStart (owner_of opts) (repo_of opts) (branch_of opts) (length cands)) w2)
      = (dl, errs, w5)"
    using prod_cases3 by blast
  from assms(3) obtain j entries where
    l: "listing h opts w = Resolved (Some j)" and t: "tree j = Some entries"
    and c: "cands = jsonFiles entries"
    by (auto simp: candidates_def split: response.splits option.splits)
  have "performDownloadIndicators h opts w =
             (Success (length dl) errs (resolved_dir h),
              send h (DownloadComplete (Success (length dl) errs (resolved_dir h)))
                (write_version_file h opts (resolved_dir h) w5))"
    using assms(1,2) g l t loop
    unfolding performDownloadIndicators_def owner_of_def repo_of_def branch_of_def
      pass_header_def listing_def fetchJson_def Let_def d c w2_def
    by simp
  with loop e2 q2 show ?thesis by blast
qed

lemma perform_counts:
  assumes "owner_of opts \<noteq> []" and "repo_of opts \<noteq> []"
    and "candidates h opts w = Some cands"
    and "performDownloadIndicators h opts w = (r, w')"
  shows "\<exists>errs w5.
     r = Success (length (filter (\<lambda>x. \<not> pass_fails h opts w x) cands)) errs (resolved_dir h)
     \<and> map fst errs = map entry_path (filter (pass_fails h opts w) cands)
     \<and> w' = send h (DownloadComplete r) (write_version_file h opts (resolved_dir h) w5)
     \<and> events w5 = events w @
         (if mainWindow h
          then DownloadStart (owner_of opts) (repo_of opts) (branch_of opts) (length cands)
                 # progress_from (pass_fails h opts w) (length cands) 0 cands
          else [])"
proof -
  from perform_listing_ok[OF assms(1-3)] assms(4) obtain dl errs w2 w5 where
    r: "r = Success (length dl) errs (resolved_dir h)"
    and w': "w' = send h (DownloadComplete r) (write_version_file h opts (resolved_dir h) w5)"
    and loop: "download_loop h (owner_of opts) (repo_of opts) (branch_of opts) (pass_header h opts w)
                (resolved_dir h) (length cands) cands 0 [] []
                (send h (DownloadStart (owner_of opts) (repo_of opts) (branch_of opts) (length cands)) w2)
               = (dl, errs, w5)"
    and e2: "events w2 = events w"
    by auto
  have pf: "file_fails h (owner_of opts) (repo_of opts) (branch_of opts) (pass_header h opts w)
       (resolved_dir h) = pass_fails h opts w"
    by (rule ext) (simp add: pass_fails_def)
  from download_loop_result[OF loop] have
    dl: "dl = map entry_path (filter (\<lambda>x. \<not> pass_fails h opts w x) cands)"
    and errs: "map fst errs = map entry_path (filter (pass_fails h opts w) cands)"
    and ev: "events w5 = events (send h (DownloadStart (owner_of opts) (repo_of opts) (branch_of opts) (length cands)) w2) @
          (if mainWindow h then progress_from (pass_fails h opts w) (length cands) 0 cands else [])"
    unfolding pf by simp_all
  from ev e2 have ev': "events w5 = events w @
         (if mainWindow h
          then DownloadStart (owner_of opts) (repo_of opts) (branch_of opts) (length cands)
                 # progress_from (pass_fails h opts w) (length cands) 0 cands
          else [])"
    by (simp add: send_def)
  from r dl have r': "r = Success (length (filter (\<lambda>x. \<not> pass_fails h opts w x) cands)) errs
      (resolved_dir h)"
    by simp
  from r' errs w' ev' show ?thesis by blast
qed

lemma length_filter_not: "length (filter (\<lambda>x. \<not> P x) xs) = length xs - length (filter P xs)"
  using sum_length_filter_compl[of P xs] by simp

text \<open>
  C1. In a pass with non-empty owner and repo whose listing succeeds with \<open>M\<close>
  candidates of which \<open>N\<close> fail, the result is a success with \<open>downloaded = M - N\<close> and
  \<open>N\<close> entries in \<open>errors\<close> (one for each failing candidate, in order); and when a
  non-empty version was supplied and the host does not refuse the write, the marker
  file holds that version afterwards, whatever the number of failures.
\<close>

theorem C1_partial_failure:
  assumes "owner_of opts \<noteq> []" and "repo_of opts \<noteq> []"
    and "candidates h opts w = Some cands"
    and "N = length (filter (pass_fails h opts w) cands)"
    and "performDownloadIndicators h opts w = (r, w')"
  shows "r = Success (length cands - N) (errors r) (resolved_dir h)
     \<and> downloaded r = length cands - N
     \<and> length (errors r) = N
     \<and> map fst (errors r) = map entry_path (filter (pass_fails h opts w) cands)
     \<and> success r
     \<and> (\<forall>v. opt version opts = Some v \<and> v \<noteq> [] \<and> write_error h (version_file h) = None
           \<longrightarrow> files w' (version_file h) = Some v)"
proof -
  from perform_counts[OF assms(1-3,5)] obtain errs w5 where
    r: "r = Success (length (filter (\<lambda>x. \<not> pass_fails h opts w x) cands)) errs (resolved_dir h)"
    and e: "map fst errs = map entry_path (filter (pass_fails h opts w) cands)"
    and w': "w' = send h (DownloadComplete r) (write_version_file h opts (resolved_dir h) w5)"
    by blast
  from e have "length (map fst errs) = length (map entry_path (filter (pass_fails h opts w) cands))"
    by simp
  then have l: "length errs = N"
    by (simp add: assms(4))
  have v: "files w' (version_file h) = Some v"
    if "opt version opts = Some v" "v \<noteq> []" "write_error h (version_file h) = None" for v
    using write_version_file_written[OF that(1,2), of h "resolved_dir h" w5] that(3)
    by (simp add: w' send_fields version_file_def)
  from r e l v show ?thesis
    by (simp add: length_filter_not assms(4) success_def)
qed

text \<open>With the request for the first of the two files timing out: one file downloaded,
  one error, success, and the marker written.\<close>

theorem C1_partial_failure_witness:
  "downloaded (fst (performDownloadIndicators flaky_host scenario_opts scenario_world)) = 1
   \<and> length (errors (fst (performDownloadIndicators flaky_host scenario_opts scenario_world))) = 1
   \<and> map fst (errors (fst (performDownloadIndicators flaky_host scenario_opts scenario_world)))
       = [''indicators/a.json'']
   \<and> success (fst (performDownloadIndicators flaky_host scenario_opts scenario_world))
   \<and> files (snd (performDownloadIndicators flaky_host scenario_opts scenario_world))
        ''/opt/WorldData/indicators/indicator_version'' = Some ''v2''"
proof -
  let ?cands = "[\<lparr>path = Some ''indicators/a.json'', type = Some ''blob''\<rparr>,
      \<lparr>path = Some ''indicators/b.json'', type = Some ''blob''\<rparr>]"
  have a: "owner_of scenario_opts \<noteq> []" by code_simp
  have b: "repo_of scenario_opts \<noteq> []" by code_simp
  have c: "candidates flaky_host scenario_opts scenario_world = Some ?cands" by code_simp
  have f: "filter (pass_fails flaky_host scenario_opts scenario_world) ?cands =
      [\<lparr>path = Some ''indicators/a.json'', type = Some ''blob''\<rparr>]"
    by code_simp
  have n: "1 = length (filter (pass_fails flaky_host scenario_opts scenario_world) ?cands)"
    unfolding f by simp
  have v: "opt version scenario_opts = Some ''v2''" by code_simp
  have vf: "version_file flaky_host = ''/opt/WorldData/indicators/indicator_version''"
    by code_simp
  have we: "write_error flaky_host (version_file flaky_host) = None"
    by (simp add: flaky_host_def scenario_host_def)
  have ep: "entry_path \<lparr>path = Some ''indicators/a.json'', type = Some ''blob''\<rparr>
     = ''indicators/a.json''"
    by code_simp
  note t = C1_partial_failure[OF a b c n surjective_pairing]
  from t have 1: "downloaded (fst (performDownloadIndicators flaky_host scenario_opts scenario_world)) = 1"
    by simp
  from t have 2: "length (errors (fst (performDownloadIndicators flaky_host scenario_opts scenario_world))) = 1"
    by simp
  from t have 3: "map fst (errors (fst (performDownloadIndicators flaky_host scenario_opts scenario_world)))
       = [''indicators/a.json'']"
    unfolding f by (simp add: ep)
  from t have 4: "success (fst (performDownloadIndicators flaky_host scenario_opts scenario_world))"
    by blast
  from t v we have "files (snd (performDownloadIndicators flaky_host scenario_opts scenario_world))
        (version_file flaky_host) = Some ''v2''"
    by simp
  then have 5: "files (snd (performDownloadIndicators flaky_host scenario_opts scenario_world))
        ''/opt/WorldData/indicators/indicator_version'' = Some ''v2''"
    unfolding vf .
  from 1 2 3 4 5 show ?thesis by (intro conjI)
qed

text \<open>
  C6. With a window to receive them, a pass whose listing succeeds with \<open>T\<close> candidates
  sends, in this order and nothing else: one \<open>download-start\<close> with \<open>total = T\<close>, one
  \<open>download-progress\<close> for each downloaded file, and one \<open>download-complete\<close> carrying
  the result that is returned.
\<close>

theorem C6_event_sequence:
  assumes "mainWindow h"
    and "owner_of opts \<noteq> []" and "repo_of opts \<noteq> []"
    and "candidates h opts w = Some cands"
    and "performDownloadIndicators h opts w = (r, w')"
  shows "events w' =
       events w
       @ [DownloadStart (owner_of opts) (repo_of opts) (branch_of opts) (length cands)]
       @ progress_from (pass_fails h opts w) (length cands) 0 cands
       @ [DownloadComplete r]
     \<and> length (progress_from (pass_fails h opts w) (length cands) 0 cands) = downloaded r
     \<and> success r"
proof -
  from perform_counts[OF assms(2-5)] obtain errs w5 where
    r: "r = Success (length (filter (\<lambda>x. \<not> pass_fails h opts w x) cands)) errs (resolved_dir h)"
    and w': "w' = send h (DownloadComplete r) (write_version_file h opts (resolved_dir h) w5)"
    and ev: "events w5 = events w @
         (if mainWindow h
          then DownloadStart (owner_of opts) (repo_of opts) (branch_of opts) (length cands)
                 # progress_from (pass_fails h opts w) (length cands) 0 cands
          else [])"
    by blast
  have "length (progress_from (pass_fails h opts w) (length cands) 0 cands)
      = length (filter (\<lambda>k. \<not> pass_fails h opts w (cands ! k)) [0..<length cands])"
    by (simp add: progress_from_def)
  also have "\<dots> = length (filter (\<lambda>x. \<not> pass_fails h opts w x) cands)"
    using length_filter_map[of "\<lambda>x. \<not> pass_fails h opts w x" "\<lambda>k. cands ! k" "[0..<length cands]"]
    by (simp add: map_nth comp_def)
  finally have n: "length (progress_from (pass_fails h opts w) (length cands) 0 cands) = downloaded r"
    by (simp add: r)
  from ev assms(1) have "events w' = events w
       @ [DownloadStart (owner_of opts) (repo_of opts) (branch_of opts) (length cands)]
       @ progress_from (pass_fails h opts w) (length cands) 0 cands
       @ [DownloadComplete r]"
    by (simp add: w' send_def write_version_file_fields)
  with n r show ?thesis
    by (simp add: success_def)
qed

text \<open>The end-to-end scenario: start with total 2, progress for \<open>a.json\<close> and \<open>b.json\<close>,
  then complete with two files downloaded and no errors.\<close>

theorem C6_event_sequence_witness:
  "events (snd (performDownloadIndicators scenario_host scenario_opts scenario_world)) =
     [DownloadStart ''xmcllabs'' ''Indicators'' ''main'' 2,
      DownloadProgress 1 2 ''indicators/a.json'',
      DownloadProgress 2 2 ''indicators/b.json'',
      DownloadComplete (Success 2 [] ''/opt/WorldData/indicators'')]"
proof -
  let ?cands = "[\<lparr>path = Some ''indicators/a.json'', type = Some ''blob''\<rparr>,
      \<lparr>path = Some ''indicators/b.json'', type = Some ''blob''\<rparr>]"
  have m: "mainWindow scenario_host" by (simp add: scenario_host_def)
  have a: "owner_of scenario_opts \<noteq> []" by code_simp
  have b: "repo_of scenario_opts \<noteq> []" by code_simp
  have c: "candidates scenario_host scenario_opts scenario_world = Some ?cands" by code_simp
  have s: "DownloadStart (owner_of scenario_opts) (repo_of scenario_opts)
       (branch_of scenario_opts) (length ?cands)
     = DownloadStart ''xmcllabs'' ''Indicators'' ''main'' 2"
    by code_simp
  have p: "progress_from (pass_fails scenario_host scenario_opts scenario_world) (length ?cands) 0 ?cands
     = [DownloadProgress 1 2 ''indicators/a.json'', DownloadProgress 2 2 ''indicators/b.json'']"
    by code_simp
  have r: "fst (performDownloadIndicators scenario_host scenario_opts scenario_world)
     = Success 2 [] ''/opt/WorldData/indicators''"
    by code_simp
  have e: "events scenario_world = []" by (simp add: scenario_world_def)
  from C6_event_sequence[OF m a b c surjective_pairing] show ?thesis
    unfolding s p r e by simp
qed

text \<open>
  C10. The progress events of a pass are exactly those of the candidates that do not
  fail, in order, and the \<open>current\<close> of each is the position of its file among all
  candidates, counted from 1 (the loop counter), not the number of files downloaded
  so far.
\<close>

theorem C10_progress_current:
  assumes "mainWindow h"
    and "owner_of opts \<noteq> []" and "repo_of opts \<noteq> []"
    and "candidates h opts w = Some cands"
    and "performDownloadIndicators h opts w = (r, w')"
  shows "filter is_progress (drop (length (events w)) (events w')) =
       map (\<lambda>k. DownloadProgress (k + 1) (length cands) (entry_path (cands ! k)))
         (filter (\<lambda>k. \<not> pass_fails h opts w (cands ! k)) [0..<length cands])"
proof -
  from perform_counts[OF assms(2-5)] obtain errs w5 where
    w': "w' = send h (DownloadComplete r) (write_version_file h opts (resolved_dir h) w5)"
    and ev: "events w5 = events w @
         (if mainWindow h
          then DownloadStart (owner_of opts) (repo_of opts) (branch_of opts) (length cands)
                 # progress_from (pass_fails h opts w) (length cands) 0 cands
          else [])"
    by blast
  have p: "filter is_progress (progress_from f n i xs) = progress_from f n i xs" for f n i xs
    by (simp add: progress_from_def is_progress_def filter_map comp_def)
  from ev assms(1) have "drop (length (events w)) (events w') =
       DownloadStart (owner_of opts) (repo_of opts) (branch_of opts) (length cands)
       # progress_from (pass_fails h opts w) (length cands) 0 cands
       @ [DownloadComplete r]"
    by (simp add: w' send_def write_version_file_fields)
  then have "filter is_progress (drop (length (events w)) (events w')) =
      progress_from (pass_fails h opts w) (length cands) 0 cands"
    by (simp add: p) (simp add: is_progress_def)
  then show ?thesis
    by (simp add: progress_from_def)
qed

text \<open>With the first of two files failing, the only progress event has \<open>current = 2\<close>,
  while one file has been downloaded.\<close>

theorem C10_progress_current_witness:
  "filter is_progress (events (snd (performDownloadIndicators flaky_host scenario_opts scenario_world)))
     = [DownloadProgress 2 2 ''indicators/b.json'']
   \<and> downloaded (fst (performDownloadIndicators flaky_host scenario_opts scenario_world)) = 1"
proof -
  let ?cands = "[\<lparr>path = Some ''indicators/a.json'', type = Some ''blob''\<rparr>,
      \<lparr>path = Some ''indicators/b.json'', type = Some ''blob''\<rparr>]"
  have m: "mainWindow flaky_host" by (simp add: flaky_host_def scenario_host_def)
  have a: "owner_of scenario_opts \<noteq> []" by code_simp
  have b: "repo_of scenario_opts \<noteq> []" by code_simp
  have c: "candidates flaky_host scenario_opts scenario_world = Some ?cands" by code_simp
  have p: "map (\<lambda>k. DownloadProgress (k + 1) (length ?cands) (entry_path (?cands ! k)))
         (filter (\<lambda>k. \<not> pass_fails flaky_host scenario_opts scenario_world (?cands ! k))
            [0..<length ?cands])
     = [DownloadProgress 2 2 ''indicators/b.json'']"
    by code_simp
  have e: "length (events scenario_world) = 0" by (simp add: scenario_world_def)
  have d: "downloaded (fst (performDownloadIndicators flaky_host scenario_opts scenario_world)) = 1"
    by code_simp
  from C10_progress_current[OF m a b c surjective_pairing] have
    "filter is_progress (events (snd (performDownloadIndicators flaky_host scenario_opts scenario_world)))
     = [DownloadProgress 2 2 ''indicators/b.json'']"
    unfolding p e by simp
  with d show ?thesis by (intro conjI)
qed

subsection \<open>A listing that fails\<close>

lemma perform_listing_fails:
  assumes "owner_of opts \<noteq> []" "repo_of opts \<noteq> []" "candidates h opts w = None"
  shows "\<not> success (fst (performDownloadIndicators h opts w))
     \<and> files (snd (performDownloadIndicators h opts w)) = files (snd (getIndicatorsDir h w))
     \<and> dirs (snd (performDownloadIndicators h opts w)) =
         dirs (ensureDir h (resolved_dir h) (snd (getIndicatorsDir h w)))
     \<and> requests (snd (performDownloadIndicators h opts w)) =
         requests w @ [api (owner_of opts) (repo_of opts) (branch_of opts)]"
proof -
  obtain d w1 where g: "getIndicatorsDir h w = (d, w1)"
    by (cases "getIndicatorsDir h w")
  from g getIndicatorsDir_fst[of h w] have d: "d = resolved_dir h" by simp
  from g getIndicatorsDir_other(2)[of h w] have r1: "requests w1 = requests w" by simp
  let ?w3 = "(ensureDir h (resolved_dir h) w1)\<lparr>requests := requests (ensureDir h (resolved_dir h) w1) @
     [api (owner_of opts) (repo_of opts) (branch_of opts)]\<rparr>"
  from assms(3) consider
      (rejected) m where "listing h opts w = Rejected m"
    | (null) "listing h opts w = Resolved None"
    | (no_tree) j where "listing h opts w = Resolved (Some j)" "tree j = None"
    by (auto simp: candidates_def split: response.splits option.splits)
  then have "\<exists>m. performDownloadIndicators h opts w = (Failure m, ?w3)
     \<or> performDownloadIndicators h opts w = (Failure m, send h (DownloadComplete (Failure m)) ?w3)"
  proof cases
    case rejected
    with assms(1,2) g have "performDownloadIndicators h opts w =
        (Failure m, send h (DownloadComplete (Failure m)) ?w3)"
      unfolding performDownloadIndicators_def owner_of_def repo_of_def branch_of_def
        pass_header_def listing_def fetchJson_def Let_def d
      by simp
    then show ?thesis by blast
  next
    case null
    with assms(1,2) g have "performDownloadIndicators h opts w = (Failure ''no tree'', ?w3)"
      unfolding performDownloadIndicators_def owner_of_def repo_of_def branch_of_def
        pass_header_def listing_def fetchJson_def Let_def d
      by simp
    then show ?thesis by blast
  next
    case no_tree
    with assms(1,2) g have "performDownloadIndicators h opts w = (Failure ''no tree'', ?w3)"
      unfolding performDownloadIndicators_def owner_of_def repo_of_def branch_of_def
        pass_header_def listing_def fetchJson_def Let_def d
      by simp
    then show ?thesis by blast
  qed
  then obtain m where "performDownloadIndicators h opts w = (Failure m, ?w3)
     \<or> performDownloadIndicators h opts w = (Failure m, send h (DownloadComplete (Failure m)) ?w3)"
    by blast
  then show ?thesis
    using g by (auto simp: success_def send_fields ensureDir_fields r1)
qed

text \<open>
  C5 (as amended). When the listing step fails (the request is rejected, or the
  response has no tree), the pass returns a failure result after that single request;
  no indicator file is written and the version marker is unchanged: every file other
  than the probe file \<open>.write_test\<close> is as before. The indicators directory has by then
  been resolved and created, so directories present before are still there and new
  ones may have appeared.
\<close>

theorem C5_listing_failure:
  assumes "owner_of opts \<noteq> []" and "repo_of opts \<noteq> []"
    and "candidates h opts w = None"
    and "performDownloadIndicators h opts w = (r, w')"
  shows "\<not> success r
     \<and> (\<forall>p. p \<noteq> probe_file h \<longrightarrow> files w' p = files w p)
     \<and> files w' (version_file h) = files w (version_file h)
     \<and> requests w' = requests w @ [api (owner_of opts) (repo_of opts) (branch_of opts)]
     \<and> dirs w \<subseteq> dirs w'"
proof -
  from perform_listing_fails[OF assms(1-3)] assms(4) have
    r: "\<not> success r" and
    fs: "files w' = files (snd (getIndicatorsDir h w))" and
    ds: "dirs w' = dirs (ensureDir h (resolved_dir h) (snd (getIndicatorsDir h w)))" and
    rs: "requests w' = requests w @ [api (owner_of opts) (repo_of opts) (branch_of opts)]"
    by simp_all
  have f: "p \<noteq> probe_file h \<Longrightarrow> files w' p = files w p" for p
    by (simp add: fs getIndicatorsDir_files)
  have v: "files w' (version_file h) = files w (version_file h)"
    unfolding version_file_def by (rule f) (rule version_file_neq_probe)
  have "dirs w \<subseteq> dirs (snd (getIndicatorsDir h w))"
    by (rule getIndicatorsDir_other)
  also have "\<dots> \<subseteq> dirs w'"
    unfolding ds by (rule ensureDir_dirs)
  finally have "dirs w \<subseteq> dirs w'" .
  with r f v rs show ?thesis
    by simp
qed

theorem C5_listing_failure_witness:
  "\<not> success (fst (performDownloadIndicators offline_host scenario_opts scenario_world))
   \<and> files (snd (performDownloadIndicators offline_host scenario_opts scenario_world))
        ''/opt/WorldData/indicators/indicator_version'' = None
   \<and> requests (snd (performDownloadIndicators offline_host scenario_opts scenario_world)) =
        [''https://api.github.com/repos/xmcllabs/Indicators/git/trees/main?recursive=1'']"
proof -
  have a: "owner_of scenario_opts \<noteq> []" by code_simp
  have b: "repo_of scenario_opts \<noteq> []" by code_simp
  have c: "candidates offline_host scenario_opts scenario_world = None" by code_simp
  have v: "version_file offline_host = ''/opt/WorldData/indicators/indicator_version''"
    by code_simp
  have f: "files scenario_world ''/opt/WorldData/indicators/indicator_version'' = None"
    by (simp add: scenario_world_def)
  have r: "requests scenario_world = []" by (simp add: scenario_world_def)
  have u: "api (owner_of scenario_opts) (repo_of scenario_opts) (branch_of scenario_opts) =
     ''https://api.github.com/repos/xmcllabs/Indicators/git/trees/main?recursive=1''"
    by code_simp
  obtain r' w' where p: "performDownloadIndicators offline_host scenario_opts scenario_world = (r', w')"
    by (cases "performDownloadIndicators offline_host scenario_opts scenario_world")
  from C5_listing_failure[OF a b c p] have "\<not> success r'"
    and "files w' (version_file offline_host) = files scenario_world (version_file offline_host)"
    and "requests w' = requests scenario_world @
       [api (owner_of scenario_opts) (repo_of scenario_opts) (branch_of scenario_opts)]"
    by blast+
  then show ?thesis
    unfolding p v u f r by simp
qed

text \<open>With every request timing out and an empty disk, the failed pass has created the
  indicators directory next to the executable.\<close>

theorem C5_directory_state_counterexample:
  "\<not> success (fst (performDownloadIndicators offline_host scenario_opts scenario_world))
   \<and> ''/opt/WorldData/indicators'' \<notin> dirs scenario_world
   \<and> ''/opt/WorldData/indicators''
       \<in> dirs (snd (performDownloadIndicators offline_host scenario_opts scenario_world))"
  by code_simp

subsection \<open>The marker, written and read back\<close>

lemma perform_success_listing:
  assumes "performDownloadIndicators h opts w = (Success n errs d, w')"
  shows "owner_of opts \<noteq> [] \<and> repo_of opts \<noteq> [] \<and> (\<exists>cands. candidates h opts w = Some cands)"
proof -
  have o: "owner_of opts \<noteq> [] \<and> repo_of opts \<noteq> []"
  proof (rule ccontr)
    assume "\<not> (owner_of opts \<noteq> [] \<and> repo_of opts \<noteq> [])"
    then have "performDownloadIndicators h opts w = (Failure ''missing owner or repo'', w)"
      by (auto simp: performDownloadIndicators_def owner_of_def repo_of_def Let_def)
    with assms show False by simp
  qed
  have "candidates h opts w \<noteq> None"
  proof
    assume "candidates h opts w = None"
    with o perform_listing_fails[of opts h w] assms show False
      by (simp add: success_def)
  qed
  with o show ?thesis by blast
qed

text \<open>
  C9. The marker is written as given and trimmed when read: after a pass that reached
  the write with a non-empty version \<open>v\<close> (and a host that refuses neither the write nor
  the read), reading the installed version returns \<open>trim v\<close>, or \<^verbatim>\<open>null\<close> when \<open>v\<close> is
  white space only. A marker file that is empty or white space only reads as \<^verbatim>\<open>null\<close>,
  as a missing marker does.
\<close>

theorem C9_version_marker_round_trip:
  assumes "performDownloadIndicators h opts w = (Success n errs d, w')"
    and "opt version opts = Some v" and "v \<noteq> []"
    and "write_error h (version_file h) = None"
    and "read_error h (version_file h) = None"
  shows "files w' (version_file h) = Some v
     \<and> fst (readInstalledIndicatorVersion h w') = (if trim v = [] then None else Some (trim v))
     \<and> (\<forall>u c. files u (version_file h) = Some c \<and> trim c = [] \<longrightarrow>
           fst (readInstalledIndicatorVersion h u) = None)
     \<and> (\<forall>u. files u (version_file h) = None \<longrightarrow>
           fst (readInstalledIndicatorVersion h u) = None)"
proof -
  from perform_success_listing[OF assms(1)] obtain cands where
    o: "owner_of opts \<noteq> []" "repo_of opts \<noteq> []" and c: "candidates h opts w = Some cands"
    by blast
  from perform_listing_ok[OF o c] assms(1) obtain w5 where
    "w' = send h (DownloadComplete (Success n errs d)) (write_version_file h opts (resolved_dir h) w5)"
    by auto
  then have f: "files w' (version_file h) = Some v"
    using write_version_file_written[OF assms(2,3), of h "resolved_dir h" w5] assms(4)
    by (simp add: send_fields version_file_def)
  then have "fst (readInstalledIndicatorVersion h w') = (if trim v = [] then None else Some (trim v))"
    using assms(5) by (simp add: readInstalledIndicatorVersion_fst or_null_def truthy_def)
  with f show ?thesis
    by (simp add: readInstalledIndicatorVersion_fst or_null_def truthy_def)
qed

text \<open>The version \<open>v2\<close> with a space on either side is stored with the spaces and read
  back without them; a marker of two spaces, and no marker, read as \<^verbatim>\<open>null\<close>.\<close>

theorem C9_version_marker_round_trip_witness:
  "files (snd (performDownloadIndicators scenario_host padded_opts scenario_world))
      ''/opt/WorldData/indicators/indicator_version'' = Some '' v2 ''
   \<and> fst (readInstalledIndicatorVersion scenario_host
        (snd (performDownloadIndicators scenario_host padded_opts scenario_world))) = Some ''v2''
   \<and> fst (readInstalledIndicatorVersion scenario_host
        (scenario_world\<lparr>files := [''/opt/WorldData/indicators/indicator_version'' \<mapsto> ''  '']\<rparr>))
       = None
   \<and> fst (readInstalledIndicatorVersion scenario_host scenario_world) = None"
proof -
  have "fst (performDownloadIndicators scenario_host padded_opts scenario_world) =
     Success 2 [] ''/opt/WorldData/indicators''"
    by code_simp
  then have p: "performDownloadIndicators scenario_host padded_opts scenario_world =
     (Success 2 [] ''/opt/WorldData/indicators'',
      snd (performDownloadIndicators scenario_host padded_opts scenario_world))"
    by (simp add: prod_eq_iff)
  have v: "opt version padded_opts = Some '' v2 ''" by code_simp
  have ne: "'' v2 '' \<noteq> []" by simp
  have vf: "version_file scenario_host = ''/opt/WorldData/indicators/indicator_version''"
    by code_simp
  have we: "write_error scenario_host (version_file scenario_host) = None"
    by (simp add: scenario_host_def)
  have re: "read_error scenario_host (version_file scenario_host) = None"
    by (simp add: scenario_host_def)
  have t: "trim '' v2 '' = ''v2''" "trim ''  '' = []" by code_simp+
  have f2: "files (scenario_world\<lparr>files := [''/opt/WorldData/indicators/indicator_version'' \<mapsto> ''  '']\<rparr>)
     (version_file scenario_host) = Some ''  ''"
    by (simp add: vf)
  have f3: "files scenario_world (version_file scenario_host) = None"
    by (simp add: scenario_world_def)
  note c = C9_version_marker_round_trip[OF p v ne we re]
  from c have r0: "files (snd (performDownloadIndicators scenario_host padded_opts scenario_world))
      ''/opt/WorldData/indicators/indicator_version'' = Some '' v2 ''"
    unfolding vf by blast
  from c have r1: "fst (readInstalledIndicatorVersion scenario_host
        (snd (performDownloadIndicators scenario_host padded_opts scenario_world))) = Some ''v2''"
    by (simp only: t) simp
  from c f2 t(2) have r2: "fst (readInstalledIndicatorVersion scenario_host
        (scenario_world\<lparr>files := [''/opt/WorldData/indicators/indicator_version'' \<mapsto> ''  '']\<rparr>)) = None"
    by blast
  from c f3 have r3: "fst (readInstalledIndicatorVersion scenario_host scenario_world) = None"
    by blast
  from r0 r1 r2 r3 show ?thesis
    by (intro conjI)
qed

subsection \<open>The automatic check\<close>

lemma download_item_requests:
  "requests (snd (download_item h ow re br hdr d n i item w)) =
     requests w @ [contentUrl ow re br (entry_path item)]"
  by (auto simp: download_item_def fetchJson_def Let_def writeFileSync_def
      ensureDir_def mkdirSync_def send_def
      split: response.splits option.splits sum.splits if_splits)

lemma download_loop_requests:
  "download_loop h ow re br hdr d n items i dl errs w = (dl', errs', w') \<Longrightarrow>
     requests w' = requests w @ map (\<lambda>x. contentUrl ow re br (entry_path x)) items"
proof (induction items arbitrary: i dl errs w)
  case Nil
  then show ?case by simp
next
  case (Cons item items)
  obtain r w1 where step: "download_item h ow re br hdr d n (Suc i) item w = (r, w1)"
    by (cases "download_item h ow re br hdr d n (Suc i) item w")
  with download_item_requests[of h ow re br hdr d n "Suc i" item w]
  have q: "requests w1 = requests w @ [contentUrl ow re br (entry_path item)]"
    by simp
  show ?case
  proof (cases r)
    case None
    with Cons.prems step have
      "download_loop h ow re br hdr d n items (Suc i) (dl @ [entry_path item]) errs w1
         = (dl', errs', w')"
      by simp
    from Cons.IH[OF this] q show ?thesis by simp
  next
    case (Some m)
    with Cons.prems step have
      "download_loop h ow re br hdr d n items (Suc i) dl (errs @ [(entry_path item, m)]) w1
         = (dl', errs', w')"
      by simp
    from Cons.IH[OF this] q show ?thesis by simp
  qed
qed

text \<open>The requests of a pass: the listing, then one for each candidate.\<close>

lemma perform_requests:
  assumes "owner_of opts \<noteq> []" "repo_of opts \<noteq> []"
  shows "requests (snd (performDownloadIndicators h opts w)) =
     requests w @ api (owner_of opts) (repo_of opts) (branch_of opts)
       # (case candidates h opts w of
            None \<Rightarrow> []
          | Some cands \<Rightarrow>
              map (\<lambda>x. contentUrl (owner_of opts) (repo_of opts) (branch_of opts) (entry_path x))
                cands)"
proof (cases "candidates h opts w")
  case None
  with perform_listing_fails[OF assms None] show ?thesis by simp
next
  case (Some cands)
  from perform_listing_ok[OF assms Some] obtain dl errs w2 w5 where
    p: "performDownloadIndicators h opts w =
             (Success (length dl) errs (resolved_dir h),
              send h (DownloadComplete (Success (length dl) errs (resolved_dir h)))
                (write_version_file h opts (resolved_dir h) w5))"
    and loop: "download_loop h (owner_of opts) (repo_of opts) (branch_of opts) (pass_header h opts w)
                (resolved_dir h) (length cands) cands 0 [] []
                (send h (DownloadStart (owner_of opts) (repo_of opts) (branch_of opts) (length cands)) w2)
               = (dl, errs, w5)"
    and q2: "requests w2 = requests w @ [api (owner_of opts) (repo_of opts) (branch_of opts)]"
    by blast
  from download_loop_requests[OF loop] q2 have
    "requests w5 = requests w @ api (owner_of opts) (repo_of opts) (branch_of opts)
       # map (\<lambda>x. contentUrl (owner_of opts) (repo_of opts) (branch_of opts) (entry_path x)) cands"
    by (simp add: send_fields)
  with p Some show ?thesis
    by (simp add: send_fields write_version_file_fields)
qed

lemma perform_missing: 
  "owner_of opts = [] \<or> repo_of opts = [] \<Longrightarrow>
     performDownloadIndicators h opts w = (Failure ''missing owner or repo'', w)"
  by (auto simp: performDownloadIndicators_def owner_of_def repo_of_def Let_def)

lemma readInstalledIndicatorVersion_snd:
  "snd (readInstalledIndicatorVersion h w) = snd (getIndicatorsDir h w)"
  by (simp add: readInstalledIndicatorVersion_def Let_def split: prod.splits sum.splits)

lemma remote_version_url_neq_api: "REMOTE_VERSION_URL \<noteq> api AUTO_OWNER AUTO_REPO ''main''"
  by code_simp

lemma auto_opts_fields:
  "owner_of (auto_opts tok v) = AUTO_OWNER"
  "repo_of (auto_opts tok v) = AUTO_REPO"
  "branch_of (auto_opts tok v) = ''main''"
  "AUTO_OWNER \<noteq> []" "AUTO_REPO \<noteq> []"
  by (simp_all add: owner_of_def repo_of_def branch_of_def auto_opts_def opt_def or_else_def
      AUTO_OWNER_def AUTO_REPO_def)

text \<open>The three ends of the automatic check.\<close>

lemma checkAndUpdateIndicators_cases:
  fixes h w
  defines "w1 \<equiv> w\<lparr>requests := requests w @ [REMOTE_VERSION_URL]\<rparr>"
  defines "w2 \<equiv> snd (readInstalledIndicatorVersion h w1)"
  shows "checkAndUpdateIndicators h w =
     (if \<not> truthy (remote_version h) then w1
      else if fst (readInstalledIndicatorVersion h w) = remote_version h then w2
      else (let (r, w3) = performDownloadIndicators h
                            (auto_opts (stored_token h w2) (remote_version h)) w2
            in send h (Updated (success r) (or_else (remote_version h) []) r) w3))"
proof -
  have r: "fst (readInstalledIndicatorVersion h w1) = fst (readInstalledIndicatorVersion h w)"
    by (simp add: readInstalledIndicatorVersion_fst w1_def)
  obtain iv w2' where i: "readInstalledIndicatorVersion h w1 = (iv, w2')"
    by (cases "readInstalledIndicatorVersion h w1")
  with r have iv: "fst (readInstalledIndicatorVersion h w) = iv" and w2': "w2 = w2'"
    by (simp_all add: w2_def)
  have f: "fetchText h REMOTE_VERSION_URL w =
     (case https_get_text h REMOTE_VERSION_URL of Inl m \<Rightarrow> Inl m | Inr t \<Rightarrow> Inr (trim t), w1)"
    by (simp add: fetchText_def w1_def split: sum.splits)
  show ?thesis
    unfolding iv w2' checkAndUpdateIndicators_def f
    using i
    by (simp add: remote_version_def Let_def auto_opts_def stored_token_def split: sum.splits)
qed


text \<open>
  C2 (as amended). The automatic check runs the download pass exactly when the fetched
  remote version is non-empty after trimming and differs from the installed version
  (a missing marker, \<^verbatim>\<open>null\<close>, differs from every non-empty remote version). Then it
  requests the remote version and the listing, and leaves the world of the pass run
  with the remote version as target, followed by the \<open>indicators-updated\<close> event. In
  every other case, also when the remote version could not be fetched or is empty, it
  makes the one request for the remote version and no pass: no further request, no
  event, no change of the token, and no file other than the probe file changed.
\<close>

theorem C2_sync_decision:
  "(pass_requested w (checkAndUpdateIndicators h w) \<longleftrightarrow>
      needsSync (fst (readInstalledIndicatorVersion h w)) (remote_version h))
   \<and> (needsSync (fst (readInstalledIndicatorVersion h w)) (remote_version h) \<longrightarrow>
        (\<exists>rest. requests (checkAndUpdateIndicators h w) =
           requests w @ REMOTE_VERSION_URL # api AUTO_OWNER AUTO_REPO ''main'' # rest)
        \<and> checkAndUpdateIndicators h w =
            (let w2 = snd (readInstalledIndicatorVersion h
                        (w\<lparr>requests := requests w @ [REMOTE_VERSION_URL]\<rparr>));
                 (r, w3) = performDownloadIndicators h
                             (auto_opts (stored_token h w2) (remote_version h)) w2
             in send h (Updated (success r) (or_else (remote_version h) []) r) w3))
   \<and> (\<not> needsSync (fst (readInstalledIndicatorVersion h w)) (remote_version h) \<longrightarrow>
        requests (checkAndUpdateIndicators h w) = requests w @ [REMOTE_VERSION_URL]
        \<and> events (checkAndUpdateIndicators h w) = events w
        \<and> password (checkAndUpdateIndicators h w) = password w
        \<and> (\<forall>p. p \<noteq> probe_file h \<longrightarrow> files (checkAndUpdateIndicators h w) p = files w p))"
proof -
  let ?w1 = "w\<lparr>requests := requests w @ [REMOTE_VERSION_URL]\<rparr>"
  let ?w2 = "snd (readInstalledIndicatorVersion h ?w1)"
  let ?opts = "auto_opts (stored_token h ?w2) (remote_version h)"
  let ?c = "checkAndUpdateIndicators h w"
  note c = checkAndUpdateIndicators_cases[of h w]
  have w2: "requests ?w2 = requests w @ [REMOTE_VERSION_URL]" "events ?w2 = events w"
    "password ?w2 = password w"
    by (simp_all add: readInstalledIndicatorVersion_snd getIndicatorsDir_other)
  have w2f: "p \<noteq> probe_file h \<Longrightarrow> files ?w2 p = files w p" for p
    by (simp add: readInstalledIndicatorVersion_snd getIndicatorsDir_files)
  have skip: "requests ?c = requests w @ [REMOTE_VERSION_URL] \<and> events ?c = events w
      \<and> password ?c = password w \<and> (\<forall>p. p \<noteq> probe_file h \<longrightarrow> files ?c p = files w p)"
    if "\<not> needsSync (fst (readInstalledIndicatorVersion h w)) (remote_version h)"
  proof (cases "truthy (remote_version h)")
    case False
    with c have "?c = ?w1" by simp
    then show ?thesis by simp
  next
    case True
    with that have "fst (readInstalledIndicatorVersion h w) = remote_version h"
      by (simp add: needsSync_def)
    with True c have "?c = ?w2" by simp
    with w2 w2f show ?thesis by simp
  qed
  have run: "(\<exists>rest. requests ?c =
           requests w @ REMOTE_VERSION_URL # api AUTO_OWNER AUTO_REPO ''main'' # rest)
        \<and> ?c = (let w2 = ?w2; (r, w3) = performDownloadIndicators h ?opts w2
                 in send h (Updated (success r) (or_else (remote_version h) []) r) w3)"
    if "needsSync (fst (readInstalledIndicatorVersion h w)) (remote_version h)"
  proof -
    from that c have e: "?c = (let (r, w3) = performDownloadIndicators h ?opts ?w2
                 in send h (Updated (success r) (or_else (remote_version h) []) r) w3)"
      by (simp add: needsSync_def)
    obtain r w3 where p: "performDownloadIndicators h ?opts ?w2 = (r, w3)"
      by (cases "performDownloadIndicators h ?opts ?w2")
    from perform_requests[of ?opts h ?w2] p have
      "\<exists>rest. requests w3 = requests ?w2 @ api AUTO_OWNER AUTO_REPO ''main'' # rest"
      by (simp add: auto_opts_fields)
    with e p w2(1) have "\<exists>rest. requests ?c =
           requests w @ REMOTE_VERSION_URL # api AUTO_OWNER AUTO_REPO ''main'' # rest"
      by (simp add: send_fields)
    with e show ?thesis by (simp add: Let_def)
  qed
  have "pass_requested w ?c \<longleftrightarrow>
      needsSync (fst (readInstalledIndicatorVersion h w)) (remote_version h)"
  proof (cases "needsSync (fst (readInstalledIndicatorVersion h w)) (remote_version h)")
    case True
    from run[OF True] obtain rest where
      "requests ?c = requests w @ REMOTE_VERSION_URL # api AUTO_OWNER AUTO_REPO ''main'' # rest"
      by blast
    with True show ?thesis by (simp add: pass_requested_def)
  next
    case False
    from skip[OF False] have "requests ?c = requests w @ [REMOTE_VERSION_URL]" by blast
    with False remote_version_url_neq_api show ?thesis
      by (auto simp: pass_requested_def)
  qed
  with run skip show ?thesis
    unfolding Let_def by blast
qed

text \<open>The end-to-end scenario (nothing installed, remote version \<open>v2\<close>): the pass is run,
  and the marker holds \<open>v2\<close> afterwards. With \<open>v2\<close> installed, the check ends after its
  one request.\<close>

theorem C2_sync_decision_witness:
  "pass_requested scenario_world (checkAndUpdateIndicators scenario_host scenario_world)
   \<and> (\<exists>rest. requests (checkAndUpdateIndicators scenario_host scenario_world) =
         ''https://raw.githubusercontent.com/xmcllabs/V_Indicators/refs/heads/main/Indicator_version''
         # ''https://api.github.com/repos/xmcllabs/Indicators/git/trees/main?recursive=1'' # rest)
   \<and> files (checkAndUpdateIndicators scenario_host scenario_world)
        ''/opt/WorldData/indicators/indicator_version'' = Some ''v2''
   \<and> requests (checkAndUpdateIndicators scenario_host installed_world) = [REMOTE_VERSION_URL]
   \<and> events (checkAndUpdateIndicators scenario_host installed_world) = []"
proof -
  have n: "needsSync (fst (readInstalledIndicatorVersion scenario_host scenario_world))
      (remote_version scenario_host)"
    by code_simp
  have u: "REMOTE_VERSION_URL =
     ''https://raw.githubusercontent.com/xmcllabs/V_Indicators/refs/heads/main/Indicator_version''"
    "api AUTO_OWNER AUTO_REPO ''main'' =
     ''https://api.github.com/repos/xmcllabs/Indicators/git/trees/main?recursive=1''"
    by code_simp+
  have e: "requests scenario_world = []" by (simp add: scenario_world_def)
  have e': "requests installed_world = []" "events installed_world = []"
    by (simp_all add: installed_world_def scenario_world_def)
  have f: "files (checkAndUpdateIndicators scenario_host scenario_world)
        ''/opt/WorldData/indicators/indicator_version'' = Some ''v2''"
    by code_simp
  have m: "\<not> needsSync (fst (readInstalledIndicatorVersion scenario_host installed_world))
       (remote_version scenario_host)"
    by code_simp
  note t = C2_sync_decision[of scenario_world scenario_host]
  note t2 = C2_sync_decision[of installed_world scenario_host]
  from t n have 1: "pass_requested scenario_world
      (checkAndUpdateIndicators scenario_host scenario_world)"
    by blast
  from t n have "\<exists>rest. requests (checkAndUpdateIndicators scenario_host scenario_world) =
           requests scenario_world @ REMOTE_VERSION_URL # api AUTO_OWNER AUTO_REPO ''main'' # rest"
    by blast
  then have 2: "\<exists>rest. requests (checkAndUpdateIndicators scenario_host scenario_world) =
         ''https://raw.githubusercontent.com/xmcllabs/V_Indicators/refs/heads/main/Indicator_version''
         # ''https://api.github.com/repos/xmcllabs/Indicators/git/trees/main?recursive=1'' # rest"
    unfolding u e by simp
  from t2 m have "requests (checkAndUpdateIndicators scenario_host installed_world)
       = requests installed_world @ [REMOTE_VERSION_URL]"
    and "events (checkAndUpdateIndicators scenario_host installed_world) = events installed_world"
    by blast+
  then have 3: "requests (checkAndUpdateIndicators scenario_host installed_world) = [REMOTE_VERSION_URL]"
    and 4: "events (checkAndUpdateIndicators scenario_host installed_world) = []"
    unfolding e' by simp_all
  from 1 2 f 3 4 show ?thesis by (intro conjI)
qed

text \<open>Nothing is installed and the remote version file holds only a space: the installed
  version (\<^verbatim>\<open>null\<close>) and the remote version (the empty string) differ, and the check
  ends after its one request for the remote version, with no pass and no event.\<close>

theorem C2_needsSync_counterexample:
  "fst (readInstalledIndicatorVersion empty_remote_host scenario_world) = None
   \<and> remote_version empty_remote_host = Some []
   \<and> fst (readInstalledIndicatorVersion empty_remote_host scenario_world)
       \<noteq> remote_version empty_remote_host
   \<and> requests (checkAndUpdateIndicators empty_remote_host scenario_world) = [REMOTE_VERSION_URL]
   \<and> events (checkAndUpdateIndicators empty_remote_host scenario_world) = []
   \<and> \<not> pass_requested scenario_world (checkAndUpdateIndicators empty_remote_host scenario_world)"
  by code_simp

end
